theory Spec2Isabelle
  imports Main
begin

section \<open>Errors raised by the facade and by the evaluator\<close>

text \<open>
  Every \<open>throw\<close> of the two source files is a value of this type.  \<open>InvalidQuery\<close> is the
  \<open>Error\<close> thrown by \<open>fromQueryString\<close>, \<open>MultipleConditionsError\<close> the one thrown by
  \<open>getPropertyCondition\<close>; \<open>FormatError m\<close> is the \<open>Error\<close> thrown by \<open>AlQueryEvaluator.assert\<close>
  with message \<open>m\<close>; \<open>UnknownOperator k\<close> is the default branch of \<open>dispatchOperator\<close>;
  \<open>InvalidPropertyReference\<close> is the \<open>Error\<close> of \<open>normalizeProperty\<close>.  \<open>TypeError\<close> is the
  runtime's own exception (a member read on \<open>null\<close> or \<open>undefined\<close>, a call of something that
  is not a function).  \<open>NotModelled\<close> marks the inputs on which the source goes through an
  implicit conversion of the runtime (\<open>ToNumber\<close>, \<open>ToString\<close>), which is outside this model.
\<close>

datatype error =
    InvalidQuery
  | MultipleConditionsError
  | TypeError
  | FormatError string
  | UnknownOperator string
  | InvalidPropertyReference
  | NotModelled

section \<open>Values of the runtime\<close>

text \<open>
  The descriptors handed to \<open>AlQueryEvaluator\<close>, the raw data handed to \<open>fromJson\<close> and the
  values a subject returns are of type \<open>any\<close>: parsed JSON, and \<open>undefined\<close>.  Numbers are
  the integers.  An object is the list of its own properties in insertion order; its keys
  are distinct.
\<close>

datatype jsvalue =
    JUndefined
  | JNull
  | JBool bool
  | JNum int
  | JStr string
  | JArr "jsvalue list"
  | JObj "(string \<times> jsvalue) list"

text \<open>Sequencing of two steps, the first of which may throw.\<close>

definition andThen :: "error + 'a \<Rightarrow> ('a \<Rightarrow> error + 'b) \<Rightarrow> error + 'b" where
  "andThen r f = (case r of Inl e \<Rightarrow> Inl e | Inr v \<Rightarrow> f v)"

text \<open>The name of the array index \<open>n\<close> as a property key.\<close>

fun decimal :: "nat \<Rightarrow> string" where
  "decimal n =
     (if n < 10 then [''0123456789'' ! n]
      else decimal (n div 10) @ [''0123456789'' ! (n mod 10)])"

declare decimal.simps [simp del]

text \<open>
  \<open>x.hasOwnProperty(k)\<close>.  On \<open>null\<close> and \<open>undefined\<close> the member read throws; a primitive
  number or boolean has no own property; a string and an array own \<open>length\<close> and their
  indices; an object that carries a property named \<open>hasOwnProperty\<close> of its own shadows the
  method with a value that cannot be called.
\<close>

fun hasOwnProperty :: "jsvalue \<Rightarrow> string \<Rightarrow> error + bool" where
  "hasOwnProperty JUndefined k = Inl TypeError"
| "hasOwnProperty JNull k = Inl TypeError"
| "hasOwnProperty (JBool b) k = Inr False"
| "hasOwnProperty (JNum n) k = Inr False"
| "hasOwnProperty (JStr s) k = Inr (k = ''length'' \<or> k \<in> set (map decimal [0..<length s]))"
| "hasOwnProperty (JArr xs) k = Inr (k = ''length'' \<or> k \<in> set (map decimal [0..<length xs]))"
| "hasOwnProperty (JObj kvs) k =
     (if ''hasOwnProperty'' \<in> set (map fst kvs) then Inl TypeError
      else Inr (k \<in> set (map fst kvs)))"

text \<open>\<open>x.length\<close> and \<open>x[i]\<close>, for an \<open>x\<close> that is neither \<open>null\<close> nor \<open>undefined\<close>.\<close>

fun js_length :: "jsvalue \<Rightarrow> jsvalue" where
  "js_length (JStr s) = JNum (int (length s))"
| "js_length (JArr xs) = JNum (int (length xs))"
| "js_length (JObj kvs) = (case map_of kvs ''length'' of Some v \<Rightarrow> v | None \<Rightarrow> JUndefined)"
| "js_length x = JUndefined"

fun element :: "jsvalue \<Rightarrow> nat \<Rightarrow> jsvalue" where
  "element (JStr s) i = (if i < length s then JStr [s ! i] else JUndefined)"
| "element (JArr xs) i = (if i < length xs then xs ! i else JUndefined)"
| "element (JObj kvs) i = (case map_of kvs (decimal i) of Some v \<Rightarrow> v | None \<Rightarrow> JUndefined)"
| "element x i = JUndefined"

text \<open>\<open>!! x\<close>.\<close>

fun truthy :: "jsvalue \<Rightarrow> bool" where
  "truthy JUndefined = False"
| "truthy JNull = False"
| "truthy (JBool b) = b"
| "truthy (JNum n) = (n \<noteq> 0)"
| "truthy (JStr s) = (s \<noteq> [])"
| "truthy (JArr xs) = True"
| "truthy (JObj kvs) = True"

text \<open>
  \<open>x === y\<close>, which is also the comparison of \<open>Array.prototype.includes\<close> on these values.
  Arrays and objects are equal only to themselves; a literal of the descriptor is never
  the object a subject returns, so they compare unequal.
\<close>

definition strict_equals :: "jsvalue \<Rightarrow> jsvalue \<Rightarrow> bool" where
  "strict_equals x y =
     (case (x, y) of
        (JUndefined, JUndefined) \<Rightarrow> True
      | (JNull, JNull) \<Rightarrow> True
      | (JBool a, JBool b) \<Rightarrow> a = b
      | (JNum a, JNum b) \<Rightarrow> a = b
      | (JStr a, JStr b) \<Rightarrow> a = b
      | _ \<Rightarrow> False)"

text \<open>\<open>typeof x === 'object'\<close>: true of \<open>null\<close> as well.\<close>

fun typeof_object :: "jsvalue \<Rightarrow> bool" where
  "typeof_object JNull = True"
| "typeof_object (JArr xs) = True"
| "typeof_object (JObj kvs) = True"
| "typeof_object x = False"

text \<open>\<open>x[k]\<close> for a property name \<open>k\<close> of an object; \<open>undefined\<close> when it has none.\<close>

fun field :: "jsvalue \<Rightarrow> string \<Rightarrow> jsvalue" where
  "field (JObj kvs) k = (case map_of kvs k of Some v \<Rightarrow> v | None \<Rightarrow> JUndefined)"
| "field x k = JUndefined"

section \<open>The idealized token tree\<close>

text \<open>
  The classes of \<open>common.types.ts\<close> and \<open>operator.types.ts\<close> are used by
  \<open>query.types.ts\<close> only through their fields (\<open>textValue\<close>, \<open>items\<close>, \<open>opPropertyRef\<close>,
  \<open>origin\<close>, \<open>alias\<close>), their \<open>getDescendants()\<close> and through \<open>instanceof\<close>.  A node is one
  constructor per class that the code tells apart; it stores those fields.  The first
  argument is always \<open>textValue\<close>.

  \<^item> \<open>Token\<close>, \<open>PropertyRef\<close>, \<open>ScalarValue\<close>: the leaves.
  \<^item> \<open>OperatorAnd\<close>, \<open>OperatorOr\<close>: the logical groups, with their \<open>items\<close>.
  \<^item> \<open>Group\<close>: any other instance of \<open>SQXGroupBase\<close>, with its \<open>items\<close>.
  \<^item> \<open>OperatorProjectAs t origin alias p ds\<close>: a projection; \<open>p\<close> is its \<open>opPropertyRef\<close>
    and \<open>ds\<close> what its \<open>getDescendants()\<close> returns.
  \<^item> \<open>Operator t p ds\<close>: any other instance of \<open>SQXOperatorBase\<close> (the comparators, the
    aggregate functions), with its \<open>opPropertyRef\<close> and the result of \<open>getDescendants()\<close>.
\<close>

datatype token =
    Token string
  | PropertyRef string
  | ScalarValue string
  | OperatorAnd string "token list"
  | OperatorOr string "token list"
  | Group string "token list"
  | OperatorProjectAs string token token "token option" "token list"
  | Operator string "token option" "token list"

fun textValue :: "token \<Rightarrow> string" where
  "textValue (Token t) = t"
| "textValue (PropertyRef t) = t"
| "textValue (ScalarValue t) = t"
| "textValue (OperatorAnd t xs) = t"
| "textValue (OperatorOr t xs) = t"
| "textValue (Group t xs) = t"
| "textValue (OperatorProjectAs t origin alias p ds) = t"
| "textValue (Operator t p ds) = t"

text \<open>\<open>x instanceof SQXGroupBase\<close>.\<close>

fun isGroupBase :: "token \<Rightarrow> bool" where
  "isGroupBase (OperatorAnd t xs) = True"
| "isGroupBase (OperatorOr t xs) = True"
| "isGroupBase (Group t xs) = True"
| "isGroupBase x = False"

text \<open>
  Modelled from the spec: \<open>common.types.ts\<close> is not among the sources.  The spec lists AND
  and OR as variants of OperatorBase that are also groups, and \<open>equals\<close> casts an
  \<open>SQXOperatorBase\<close> to \<open>SQXGroupBase\<close>; \<open>x instanceof SQXOperatorBase\<close> is taken to hold of
  every group and every operator, and of no leaf.
\<close>

fun isOperatorBase :: "token \<Rightarrow> bool" where
  "isOperatorBase (Token t) = False"
| "isOperatorBase (PropertyRef t) = False"
| "isOperatorBase (ScalarValue t) = False"
| "isOperatorBase x = True"

text \<open>\<open>x instanceof SQXOperatorAnd\<close>, \<open>x instanceof SQXOperatorOr\<close>.\<close>

fun isOperatorAnd :: "token \<Rightarrow> bool" where
  "isOperatorAnd (OperatorAnd t xs) = True"
| "isOperatorAnd x = False"

fun isOperatorOr :: "token \<Rightarrow> bool" where
  "isOperatorOr (OperatorOr t xs) = True"
| "isOperatorOr x = False"

text \<open>The field \<open>items\<close> of a group; no other node has it (\<open>None\<close> is \<open>undefined\<close>).\<close>

fun items :: "token \<Rightarrow> token list option" where
  "items (OperatorAnd t xs) = Some xs"
| "items (OperatorOr t xs) = Some xs"
| "items (Group t xs) = Some xs"
| "items x = None"

text \<open>
  The field \<open>opPropertyRef\<close> of an operator.  The spec calls it optional ("the property it
  tests, if any"); \<open>None\<close> is an operator that tests no property.  The field of a group is
  never read: the traversal hands no group to a callback.
\<close>

fun opPropertyRef :: "token \<Rightarrow> token option" where
  "opPropertyRef (OperatorProjectAs t origin alias p ds) = p"
| "opPropertyRef (Operator t p ds) = p"
| "opPropertyRef x = None"

text \<open>
  Modelled from the spec: \<open>new SQXOperatorAnd()\<close> and \<open>new SQXOperatorOr()\<close> of
  \<open>operator.types.ts\<close> (not among the sources) build a group with zero items; its text is
  taken to be the keyword.
\<close>

definition new_SQXOperatorAnd :: token where
  "new_SQXOperatorAnd = OperatorAnd ''AND'' []"

definition new_SQXOperatorOr :: token where
  "new_SQXOperatorOr = OperatorOr ''OR'' []"

text \<open>\<open>group.items.push(x)\<close>; on a node without \<open>items\<close> the read of \<open>undefined.push\<close> throws.\<close>

fun items_push :: "token \<Rightarrow> token \<Rightarrow> error + token" where
  "items_push (OperatorAnd t xs) x = Inr (OperatorAnd t (xs @ [x]))"
| "items_push (OperatorOr t xs) x = Inr (OperatorOr t (xs @ [x]))"
| "items_push (Group t xs) x = Inr (Group t (xs @ [x]))"
| "items_push y x = Inl TypeError"

text \<open>The nesting depth of a condition: a leaf or an operator counts 0, a group one more
  than its deepest item.\<close>

fun nesting :: "token \<Rightarrow> nat" where
  "nesting (OperatorAnd t xs) = Suc (fold max (map nesting xs) 0)"
| "nesting (OperatorOr t xs) = Suc (fold max (map nesting xs) 0)"
| "nesting (Group t xs) = Suc (fold max (map nesting xs) 0)"
| "nesting x = 0"

section \<open>The query facade: \<open>SQXSearchQuery\<close>\<close>

text \<open>
  \<open>SQXClauseSelect\<close> and \<open>SQXClauseWhere\<close> are read through \<open>columns\<close> and \<open>condition\<close>.  The
  other clauses are only handed on as tokens (to \<open>traverseDescendants\<close>), so they are kept
  as the token they are.  \<open>None\<close> is \<open>null\<close>; \<open>key\<close> and \<open>name\<close> hold whatever value they were
  given, \<open>JNull\<close> at first.
\<close>

record SQXClauseSelect =
  columns :: "token list"

record SQXClauseWhere =
  condition :: token

record SQXSearchQuery =
  key :: jsvalue
  name :: jsvalue
  select :: "SQXClauseSelect option"
  where_clause :: "SQXClauseWhere option"
  order_by :: "token option"
  group_by :: "token option"
  group_by_permuted :: "token option"
  having :: "token option"
  limit :: "token option"
  time_range :: "token option"
  aggregate :: bool

text \<open>\<open>new SQXSearchQuery()\<close>: the field initialisers of the class.\<close>

definition new_SQXSearchQuery :: SQXSearchQuery where
  "new_SQXSearchQuery =
     \<lparr> key = JNull, name = JNull, select = None, where_clause = None, order_by = None,
       group_by = None, group_by_permuted = None, having = None, limit = None,
       time_range = None, aggregate = False \<rparr>"

subsection \<open>Construction\<close>

text \<open>
  \<open>SQXParser\<close> (\<open>parser.types.ts\<close>) is not among the sources.  A parser after
  \<open>evaluate(expression)\<close> is the record of what the facade reads from it: \<open>state.errors\<close> and
  the clause fields the spec lists for it.  \<open>evaluate\<close> itself is a parameter of
  \<open>fromQueryString\<close>.
\<close>

record SQXParser =
  state_errors :: "string list"
  parser_select :: "SQXClauseSelect option"
  parser_where :: "SQXClauseWhere option"
  parser_orderBy :: "token option"
  parser_groupBy :: "token option"
  parser_groupByPermuted :: "token option"
  parser_having :: "token option"
  parser_limit :: "token option"
  parser_timeRange :: "token option"

definition fromParser :: "SQXParser \<Rightarrow> SQXSearchQuery" where
  "fromParser parser =
     new_SQXSearchQuery
       \<lparr> select := parser_select parser,
         where_clause := parser_where parser,
         order_by := parser_orderBy parser,
         group_by := parser_groupBy parser,
         group_by_permuted := parser_groupByPermuted parser,
         limit := parser_limit parser,
         having := parser_having parser \<rparr>"

definition fromQueryString :: "(string \<Rightarrow> SQXParser) \<Rightarrow> string \<Rightarrow> error + SQXSearchQuery" where
  "fromQueryString evaluate expression =
     (let parser = evaluate expression in
      if length (state_errors parser) \<noteq> 0 then Inl InvalidQuery
      else Inr (fromParser parser))"

text \<open>
  What \<open>parser.fromJson(rawData)\<close> returns, as far as \<open>SQXSearchQuery.fromJson\<close> reads it;
  the function is a parameter of \<open>fromJson\<close>.  A clause object is truthy, so \<open>x || null\<close>
  is \<open>x\<close>.
\<close>

record parsed_json =
  parsed_select :: "SQXClauseSelect option"
  parsed_where :: "SQXClauseWhere option"
  parsed_order_by :: "token option"
  parsed_group_by :: "token option"
  parsed_group_by_permuted :: "token option"
  parsed_limit :: "token option"
  parsed_having :: "token option"
  parsed_time_range :: "token option"

definition own_or_null :: "jsvalue \<Rightarrow> string \<Rightarrow> error + jsvalue" where
  "own_or_null rawData k =
     andThen (hasOwnProperty rawData k) (\<lambda>h. Inr (if h then field rawData k else JNull))"

definition fromJson :: "(jsvalue \<Rightarrow> parsed_json) \<Rightarrow> jsvalue \<Rightarrow> error + SQXSearchQuery" where
  "fromJson parser_fromJson rawData =
     andThen (own_or_null rawData ''key'') (\<lambda>k.
     andThen (own_or_null rawData ''name'') (\<lambda>n.
       let parsed = parser_fromJson rawData in
       Inr (new_SQXSearchQuery
              \<lparr> key := k, name := n,
                select := parsed_select parsed,
                where_clause := parsed_where parsed,
                order_by := parsed_order_by parsed,
                group_by := parsed_group_by parsed,
                group_by_permuted := parsed_group_by_permuted parsed,
                limit := parsed_limit parsed,
                having := parsed_having parsed,
                time_range := parsed_time_range parsed \<rparr>)))"

text \<open>\<open>SQXSearchQuery.empty(name)\<close>.\<close>

definition empty_query :: "string \<Rightarrow> SQXSearchQuery" where
  "empty_query n = new_SQXSearchQuery \<lparr> name := JStr n \<rparr>"

subsection \<open>Conditions\<close>

text \<open>
  \<open>getConditions()\<close> mutates \<open>this.where\<close> and returns the root: the model returns the root
  together with the query after the call.
\<close>

definition getConditions :: "SQXSearchQuery \<Rightarrow> token \<times> SQXSearchQuery" where
  "getConditions q =
     (case where_clause q of
        None \<Rightarrow> (new_SQXOperatorAnd,
                 q \<lparr> where_clause := Some \<lparr> condition = new_SQXOperatorAnd \<rparr> \<rparr>)
      | Some w \<Rightarrow> (condition w, q))"

text \<open>\<open>this.where.condition = c\<close>, for a \<open>where\<close> that is set.\<close>

definition set_condition :: "token \<Rightarrow> SQXSearchQuery \<Rightarrow> SQXSearchQuery" where
  "set_condition c q =
     q \<lparr> where_clause := map_option (\<lambda>w. w \<lparr> condition := c \<rparr>) (where_clause q) \<rparr>"

text \<open>\<open>and()\<close> and \<open>or()\<close>: the fresh group receives the existing root by \<open>items.push\<close>.\<close>

definition and_query :: "SQXSearchQuery \<Rightarrow> SQXSearchQuery" where
  "and_query q =
     (let (existingCondition, q1) = getConditions q in
      if \<not> isOperatorAnd existingCondition
      then set_condition (OperatorAnd (textValue new_SQXOperatorAnd) [existingCondition]) q1
      else q1)"

definition or_query :: "SQXSearchQuery \<Rightarrow> SQXSearchQuery" where
  "or_query q =
     (let (existingCondition, q1) = getConditions q in
      if \<not> isOperatorOr existingCondition
      then set_condition (OperatorOr (textValue new_SQXOperatorOr) [existingCondition]) q1
      else q1)"

text \<open>The WHERE root of a query, when it has one.\<close>

definition root :: "SQXSearchQuery \<Rightarrow> token option" where
  "root q = map_option condition (where_clause q)"

text \<open>
  \<open>equals(property, value)\<close> and \<open>in(property, values)\<close> push a comparator onto the root.
  \<open>SQXComparatorEqual\<close> and \<open>SQXComparatorIn\<close> are not among the sources: the comparator
  comes already built.  The cast to \<open>SQXGroupBase\<close> checks nothing, so on a root without
  \<open>items\<close> the push throws, after \<open>getConditions()\<close> has run.
\<close>

definition push_condition :: "token \<Rightarrow> SQXSearchQuery \<Rightarrow> error + SQXSearchQuery" where
  "push_condition comparator q =
     (let (conditions, q1) = getConditions q in
      case items_push conditions comparator of
        Inl e \<Rightarrow> Inl e
      | Inr conditions' \<Rightarrow> Inr (set_condition conditions' q1))"

definition equals :: "token \<Rightarrow> SQXSearchQuery \<Rightarrow> error + SQXSearchQuery" where
  "equals new_SQXComparatorEqual q = push_condition new_SQXComparatorEqual q"

definition in_query :: "token \<Rightarrow> SQXSearchQuery \<Rightarrow> error + SQXSearchQuery" where
  "in_query new_SQXComparatorIn q = push_condition new_SQXComparatorIn q"

subsection \<open>Traversal\<close>

text \<open>
  The callback of \<open>traverseDescendants\<close> acts on the state of its caller and may throw:
  it is a function from the token, the depth and the state before to the state after or
  an error.  \<open>traverseFrom\<close> is the method for a \<open>from\<close> that is set; \<open>traverseEach\<close> is
  \<open>xs.map( x => this.traverseDescendants( callback, x, depth ) )\<close>, which stops at the first
  call that throws.
\<close>

type_synonym 's callback = "token \<Rightarrow> nat \<Rightarrow> 's \<Rightarrow> error + 's"

fun traverseFrom :: "'s callback \<Rightarrow> token \<Rightarrow> nat \<Rightarrow> 's \<Rightarrow> error + 's"
and traverseEach :: "'s callback \<Rightarrow> token list \<Rightarrow> nat \<Rightarrow> 's \<Rightarrow> error + 's"
where
  "traverseFrom cb (OperatorAnd t xs) depth s = traverseEach cb xs (depth + 1) s"
| "traverseFrom cb (OperatorOr t xs) depth s = traverseEach cb xs (depth + 1) s"
| "traverseFrom cb (Group t xs) depth s = traverseEach cb xs (depth + 1) s"
| "traverseFrom cb (OperatorProjectAs t origin alias p ds) depth s =
     (case cb (OperatorProjectAs t origin alias p ds) depth s of
        Inl e \<Rightarrow> Inl e
      | Inr s' \<Rightarrow> traverseEach cb ds (depth + 1) s')"
| "traverseFrom cb (Operator t p ds) depth s =
     (case cb (Operator t p ds) depth s of
        Inl e \<Rightarrow> Inl e
      | Inr s' \<Rightarrow> traverseEach cb ds (depth + 1) s')"
| "traverseFrom cb (Token t) depth s = cb (Token t) depth s"
| "traverseFrom cb (PropertyRef t) depth s = cb (PropertyRef t) depth s"
| "traverseFrom cb (ScalarValue t) depth s = cb (ScalarValue t) depth s"
| "traverseEach cb [] depth s = Inr s"
| "traverseEach cb (x # xs) depth s =
     (case traverseFrom cb x depth s of
        Inl e \<Rightarrow> Inl e
      | Inr s' \<Rightarrow> traverseEach cb xs depth s')"

text \<open>
  The clause classes (\<open>clause.types.ts\<close>) are not among the sources, so whether a SELECT
  or a WHERE clause is a group, an operator or neither is not known: \<open>selectToken\<close> and
  \<open>whereToken\<close> give the token that the traversal sees in them.  \<open>topLevelClauses\<close> is the
  array literal of the first branch after \<open>.filter( x => x )\<close>.
\<close>

definition topLevelClauses ::
  "(SQXClauseSelect \<Rightarrow> token) \<Rightarrow> (SQXClauseWhere \<Rightarrow> token) \<Rightarrow> SQXSearchQuery \<Rightarrow> token list" where
  "topLevelClauses selectToken whereToken q =
     List.map_filter (\<lambda>x. x)
       [map_option selectToken (select q), map_option whereToken (where_clause q),
        order_by q, group_by q, group_by_permuted q, having q, limit q]"

definition traverseDescendants ::
  "(SQXClauseSelect \<Rightarrow> token) \<Rightarrow> (SQXClauseWhere \<Rightarrow> token) \<Rightarrow> SQXSearchQuery \<Rightarrow>
   's callback \<Rightarrow> token option \<Rightarrow> nat \<Rightarrow> 's \<Rightarrow> error + 's" where
  "traverseDescendants selectToken whereToken q cb from_token depth s =
     (case from_token of
        None \<Rightarrow> traverseEach cb (topLevelClauses selectToken whereToken q) depth s
      | Some t \<Rightarrow> traverseFrom cb t depth s)"

text \<open>What \<open>getDescendants()\<close> returns; the traversal calls it on operators that are not
  groups.\<close>

fun getDescendants :: "token \<Rightarrow> token list" where
  "getDescendants (OperatorProjectAs t origin alias p ds) = ds"
| "getDescendants (Operator t p ds) = ds"
| "getDescendants x = []"

text \<open>The callback that only records its calls: \<open>(token, depth)\<close>, in the order made.\<close>

definition record_call :: "(token \<times> nat) list callback" where
  "record_call t depth calls = Inr (calls @ [(t, depth)])"

text \<open>Running a callback over a sequence of calls, up to the first one that throws.\<close>

fun run_calls :: "'s callback \<Rightarrow> (token \<times> nat) list \<Rightarrow> 's \<Rightarrow> error + 's" where
  "run_calls cb [] s = Inr s"
| "run_calls cb ((t, depth) # calls) s =
     (case cb t depth s of Inl e \<Rightarrow> Inl e | Inr s' \<Rightarrow> run_calls cb calls s')"

text \<open>
  The traversal as the specification words it, as the sequence of calls of the callback:
  a group node recurses into each item at \<open>depth + 1\<close> and is not itself handed to the
  callback; an operator node is handed to the callback with its depth first, then its
  descendants follow at \<open>depth + 1\<close>; any other node is handed to the callback, with no
  recursion.
\<close>

fun spec_visits :: "token \<Rightarrow> nat \<Rightarrow> (token \<times> nat) list" where
  "spec_visits (OperatorAnd t xs) depth = concat (map (\<lambda>x. spec_visits x (depth + 1)) xs)"
| "spec_visits (OperatorOr t xs) depth = concat (map (\<lambda>x. spec_visits x (depth + 1)) xs)"
| "spec_visits (Group t xs) depth = concat (map (\<lambda>x. spec_visits x (depth + 1)) xs)"
| "spec_visits (OperatorProjectAs t origin alias p ds) depth =
     (OperatorProjectAs t origin alias p ds, depth)
       # concat (map (\<lambda>x. spec_visits x (depth + 1)) ds)"
| "spec_visits (Operator t p ds) depth =
     (Operator t p ds, depth) # concat (map (\<lambda>x. spec_visits x (depth + 1)) ds)"
| "spec_visits x depth = [(x, depth)]"

subsection \<open>Conditions on a property\<close>

text \<open>
  The callback of \<open>getPropertyConditions\<close>, on the array \<open>operators\<close>.  \<open>target\<close> is the
  \<open>textValue\<close> of \<open>new SQXToken( property )\<close>.  The read of \<open>token.opPropertyRef.textValue\<close> on an
  operator without a property reference throws.
\<close>

definition collect_condition :: "string \<Rightarrow> token list callback" where
  "collect_condition target tok depth operators =
     (if isOperatorBase tok then
        (case opPropertyRef tok of
           None \<Rightarrow> Inl TypeError
         | Some p \<Rightarrow>
             if textValue p = target then Inr (operators @ [tok]) else Inr operators)
      else Inr operators)"

text \<open>
  An operator whose own property reference has the text \<open>target\<close>, and an operator that
  has no property reference.
\<close>

definition tests_property :: "string \<Rightarrow> token \<Rightarrow> bool" where
  "tests_property target tok =
     (isOperatorBase tok \<and>
      (case opPropertyRef tok of None \<Rightarrow> False | Some p \<Rightarrow> textValue p = target))"

definition lacks_property :: "token \<Rightarrow> bool" where
  "lacks_property tok = (isOperatorBase tok \<and> opPropertyRef tok = None)"

definition getPropertyConditions ::
  "string \<Rightarrow> SQXSearchQuery \<Rightarrow> (error + token list) \<times> SQXSearchQuery" where
  "getPropertyConditions target q =
     (let (conditions, q1) = getConditions q in
      (traverseFrom (collect_condition target) conditions 0 [], q1))"

definition getPropertyCondition ::
  "string \<Rightarrow> SQXSearchQuery \<Rightarrow> (error + token option) \<times> SQXSearchQuery" where
  "getPropertyCondition target q =
     (let (result, q1) = getPropertyConditions target q in
      case result of
        Inl e \<Rightarrow> (Inl e, q1)
      | Inr operators \<Rightarrow>
          if length operators = 0 then (Inr None, q1)
          else if length operators > 1 then (Inl MultipleConditionsError, q1)
          else (Inr (Some (operators ! 0)), q1))"

subsection \<open>Columns\<close>

record SQXColumnDescriptor =
  column_name :: string
  column_type :: string
  asField :: "string option"
  isAggregate :: bool

text \<open>
  One round of the loop of \<open>getColumnDescriptions\<close>, on \<open>results\<close> and \<open>this.aggregate\<close>.
  \<open>toQueryString\<close> of a token is a parameter (\<open>common.types.ts\<close> is not among the sources).
\<close>

fun describe_column ::
  "(token \<Rightarrow> string) \<Rightarrow> token \<Rightarrow> SQXColumnDescriptor list \<times> bool \<Rightarrow> SQXColumnDescriptor list \<times> bool" where
  "describe_column toQueryString (PropertyRef t) (results, agg) =
     (results @ [\<lparr> column_name = toQueryString (PropertyRef t), column_type = ''any'',
                   asField = None, isAggregate = False \<rparr>], agg)"
| "describe_column toQueryString (OperatorProjectAs t origin alias p ds) (results, agg) =
     (if isOperatorBase origin
      then (results @ [\<lparr> column_name = textValue alias, column_type = ''number'',
                         asField = Some (textValue origin), isAggregate = True \<rparr>], True)
      else (results @ [\<lparr> column_name = textValue alias, column_type = ''any'',
                         asField = Some (textValue origin), isAggregate = False \<rparr>], agg))"
| "describe_column toQueryString column (results, agg) =
     (if isOperatorBase column
      then (results @ [\<lparr> column_name = toQueryString column, column_type = ''number'',
                         asField = None, isAggregate = False \<rparr>], agg)
      else (results, agg))"

text \<open>
  The descriptor of one column as the specification words it (\<open>None\<close>: the column is
  skipped), and the columns that set the cached flag.
\<close>

fun spec_descriptor :: "(token \<Rightarrow> string) \<Rightarrow> token \<Rightarrow> SQXColumnDescriptor option" where
  "spec_descriptor toQueryString (PropertyRef t) =
     Some \<lparr> column_name = toQueryString (PropertyRef t), column_type = ''any'',
            asField = None, isAggregate = False \<rparr>"
| "spec_descriptor toQueryString (OperatorProjectAs t origin alias p ds) =
     Some \<lparr> column_name = textValue alias,
            column_type = (if isOperatorBase origin then ''number'' else ''any''),
            asField = Some (textValue origin), isAggregate = isOperatorBase origin \<rparr>"
| "spec_descriptor toQueryString column =
     (if isOperatorBase column
      then Some \<lparr> column_name = toQueryString column, column_type = ''number'',
                  asField = None, isAggregate = False \<rparr>
      else None)"

fun is_aggregate_column :: "token \<Rightarrow> bool" where
  "is_aggregate_column (OperatorProjectAs t origin alias p ds) = isOperatorBase origin"
| "is_aggregate_column column = False"

definition getColumnDescriptions ::
  "(token \<Rightarrow> string) \<Rightarrow> SQXSearchQuery \<Rightarrow> SQXColumnDescriptor list \<times> SQXSearchQuery" where
  "getColumnDescriptions toQueryString q =
     (case select q of
        None \<Rightarrow> ([], q)
      | Some s \<Rightarrow>
          (let (results, agg) = fold (describe_column toQueryString) (columns s) ([], aggregate q)
           in (results, q \<lparr> aggregate := agg \<rparr>)))"

definition isAggregate_query :: "(token \<Rightarrow> string) \<Rightarrow> SQXSearchQuery \<Rightarrow> bool \<times> SQXSearchQuery" where
  "isAggregate_query toQueryString q =
     (let (results, q1) = getColumnDescriptions toQueryString q in (aggregate q1, q1))"

text \<open>
  Modelled from the spec: \<open>toQueryString()\<close> of \<open>common.types.ts\<close>, which is not among the
  sources.  The spec renders the property reference \<open>name\<close> as the column name \<open>name\<close>: a
  token is rendered as the text it wraps.
\<close>

definition toQueryString_text :: "token \<Rightarrow> string" where
  "toQueryString_text t = textValue t"

subsection \<open>The operations on a query\<close>

text \<open>
  The methods of the class that change or may change a query, and the assignment of a
  new SELECT clause (the field is public; this is how columns are removed).  \<open>perform\<close> is
  the query after one of them, also when the method throws.
\<close>

datatype operation =
    GetConditions
  | And
  | Or
  | Equals token
  | In token
  | GetPropertyConditions string
  | GetPropertyCondition string
  | GetColumnDescriptions
  | IsAggregate
  | AssignSelect "SQXClauseSelect option"

fun perform :: "(token \<Rightarrow> string) \<Rightarrow> operation \<Rightarrow> SQXSearchQuery \<Rightarrow> SQXSearchQuery" where
  "perform toQueryString GetConditions q = snd (getConditions q)"
| "perform toQueryString And q = and_query q"
| "perform toQueryString Or q = or_query q"
| "perform toQueryString (Equals c) q =
     (case equals c q of Inl e \<Rightarrow> snd (getConditions q) | Inr q' \<Rightarrow> q')"
| "perform toQueryString (In c) q =
     (case in_query c q of Inl e \<Rightarrow> snd (getConditions q) | Inr q' \<Rightarrow> q')"
| "perform toQueryString (GetPropertyConditions p) q = snd (getPropertyConditions p q)"
| "perform toQueryString (GetPropertyCondition p) q = snd (getPropertyCondition p q)"
| "perform toQueryString GetColumnDescriptions q = snd (getColumnDescriptions toQueryString q)"
| "perform toQueryString IsAggregate q = snd (isAggregate_query toQueryString q)"
| "perform toQueryString (AssignSelect s) q = q \<lparr> select := s \<rparr>"

section \<open>The conditional evaluator: \<open>AlQueryEvaluator\<close>\<close>

text \<open>
  A subject is its \<open>getPropertyValue(property, ns)\<close>, taken to be a function of its two
  arguments.
\<close>

type_synonym AlConditionalSubject = "jsvalue \<Rightarrow> jsvalue \<Rightarrow> jsvalue"

text \<open>\<open>assert(target, value, message)\<close>.\<close>

definition assert :: "bool \<Rightarrow> string \<Rightarrow> error + unit" where
  "assert v message = (if \<not> v then Inl (FormatError message) else Inr ())"

text \<open>
  \<open>normalizeProperty(descriptor)\<close>.  Its last branch builds the message from
  \<open>descriptor[0].source\<close>: the read throws a \<open>TypeError\<close> of its own unless the descriptor
  has a property \<open>0\<close>.  The result is the pair \<open>(ns, id)\<close>.
\<close>

definition invalid_reference :: "jsvalue \<Rightarrow> error" where
  "invalid_reference descriptor =
     (case field descriptor ''0'' of
        JUndefined \<Rightarrow> TypeError
      | JNull \<Rightarrow> TypeError
      | x \<Rightarrow> InvalidPropertyReference)"

definition has_ns_and_id :: "jsvalue \<Rightarrow> error + bool" where
  "has_ns_and_id propertyRef =
     (if typeof_object propertyRef
      then andThen (hasOwnProperty propertyRef ''ns'') (\<lambda>h.
             if h then hasOwnProperty propertyRef ''id'' else Inr False)
      else Inr False)"

definition normalizeProperty :: "jsvalue \<Rightarrow> error + jsvalue \<times> jsvalue" where
  "normalizeProperty descriptor =
     andThen (hasOwnProperty descriptor ''source'') (\<lambda>h.
     andThen (assert h ''property reference must include a `source` property'') (\<lambda>_.
       let propertyRef = field descriptor ''source'' in
       andThen (has_ns_and_id propertyRef) (\<lambda>b.
         if b then Inr (field propertyRef ''ns'', field propertyRef ''id'')
         else (case propertyRef of
                 JStr s \<Rightarrow> Inr (JStr ''default'', propertyRef)
               | _ \<Rightarrow> Inl (invalid_reference descriptor)))))"

text \<open>The assertion \<open>op.hasOwnProperty("length") && op.length === 2\<close>.\<close>

definition two_elements :: "string \<Rightarrow> jsvalue \<Rightarrow> error + unit" where
  "two_elements message op =
     andThen (hasOwnProperty op ''length'') (\<lambda>h.
       assert (h \<and> js_length op = JNum 2) message)"

text \<open>\<open>target.getPropertyValue( property.id, property.ns )\<close>.\<close>

definition getPropertyValue :: "AlConditionalSubject \<Rightarrow> jsvalue \<times> jsvalue \<Rightarrow> jsvalue" where
  "getPropertyValue target property = (case property of (ns, ident) \<Rightarrow> target ident ns)"

text \<open>The messages of \<open>evaluateEquals\<close> and \<open>evaluateNotEquals\<close> are the source's.\<close>

definition evaluateEquals :: "AlConditionalSubject \<Rightarrow> jsvalue \<Rightarrow> error + bool" where
  "evaluateEquals target op =
     andThen (two_elements ''`!=` descriptor should have two elements'' op) (\<lambda>_.
     andThen (normalizeProperty (element op 0)) (\<lambda>property.
       let actualValue = getPropertyValue target property;
           testValue = element op 1
       in Inr (strict_equals actualValue testValue)))"

definition evaluateNotEquals :: "AlConditionalSubject \<Rightarrow> jsvalue \<Rightarrow> error + bool" where
  "evaluateNotEquals target op =
     andThen (two_elements ''`=` descriptor should have two elements'' op) (\<lambda>_.
     andThen (normalizeProperty (element op 0)) (\<lambda>property.
       let actualValue = getPropertyValue target property;
           testValue = element op 1
       in Inr (\<not> strict_equals actualValue testValue)))"

text \<open>
  \<open>testValues.includes(actualValue)\<close>: on an array the search with \<open>===\<close>; on a string the
  substring test, which converts a needle that is not a string (not modelled); any
  other value that owns a \<open>length\<close> has no such method.
\<close>

fun js_includes :: "jsvalue \<Rightarrow> jsvalue \<Rightarrow> error + bool" where
  "js_includes (JArr xs) v = Inr (list_ex (\<lambda>x. strict_equals x v) xs)"
| "js_includes (JStr s) (JStr t) =
     Inr (list_ex (\<lambda>i. take (length t) (drop i s) = t) [0..<Suc (length s)])"
| "js_includes (JStr s) v = Inl NotModelled"
| "js_includes x v = Inl TypeError"

definition evaluateIn :: "AlConditionalSubject \<Rightarrow> jsvalue \<Rightarrow> error + bool" where
  "evaluateIn target op =
     andThen (two_elements ''`in` descriptor should have two elements'' op) (\<lambda>_.
     andThen (normalizeProperty (element op 0)) (\<lambda>property.
       let actualValue = getPropertyValue target property;
           testValues = element op 1
       in andThen (hasOwnProperty testValues ''length'') (\<lambda>h.
          andThen (assert h ''`in` values clause must be an array'') (\<lambda>_.
            js_includes testValues actualValue))))"

text \<open>
  The body of the reducers of \<open>evaluateContainsAny\<close> and \<open>evaluateContainsAll\<close>:
  \<open>actualValues.includes(value)\<close> for an array, and
  \<open>actualValues.hasOwnProperty(value) && !! actualValues[value]\<close> otherwise (a \<open>value\<close> that
  is not a string is converted to a property key: not modelled).  The last equation is
  \<open>null\<close>, the one other value that passes the \<open>typeof\<close> assertion before.
\<close>

fun contains_value :: "jsvalue \<Rightarrow> jsvalue \<Rightarrow> error + bool" where
  "contains_value (JArr xs) v = js_includes (JArr xs) v"
| "contains_value (JObj kvs) (JStr k) =
     andThen (hasOwnProperty (JObj kvs) k) (\<lambda>h. Inr (h \<and> truthy (field (JObj kvs) k)))"
| "contains_value (JObj kvs) v = Inl NotModelled"
| "contains_value x v = Inl TypeError"

fun reduce_any :: "jsvalue \<Rightarrow> jsvalue list \<Rightarrow> bool \<Rightarrow> error + bool" where
  "reduce_any actualValues [] alpha = Inr alpha"
| "reduce_any actualValues (v # vs) alpha =
     (if alpha then reduce_any actualValues vs True
      else andThen (contains_value actualValues v) (reduce_any actualValues vs))"

fun reduce_all :: "jsvalue \<Rightarrow> jsvalue list \<Rightarrow> bool \<Rightarrow> error + bool" where
  "reduce_all actualValues [] alpha = Inr alpha"
| "reduce_all actualValues (v # vs) alpha =
     (if alpha then andThen (contains_value actualValues v) (reduce_all actualValues vs)
      else reduce_all actualValues vs False)"

text \<open>\<open>testValues.reduce(f, init)\<close>: only an array has the method.\<close>

fun reduce_with :: "(jsvalue list \<Rightarrow> bool \<Rightarrow> error + bool) \<Rightarrow> jsvalue \<Rightarrow> bool \<Rightarrow> error + bool" where
  "reduce_with f (JArr vs) init = f vs init"
| "reduce_with f x init = Inl TypeError"

definition evaluateContainsAny :: "AlConditionalSubject \<Rightarrow> jsvalue \<Rightarrow> error + bool" where
  "evaluateContainsAny target op =
     andThen (two_elements ''`in` descriptor should have two elements'' op) (\<lambda>_.
     andThen (normalizeProperty (element op 0)) (\<lambda>property.
       let actualValues = getPropertyValue target property in
       andThen (assert (typeof_object actualValues)
         ''`contains_any` operator must reference a property that is an object or an array'') (\<lambda>_.
       let testValues = element op 1 in
       andThen (hasOwnProperty testValues ''length'') (\<lambda>h.
       andThen (assert h ''`in` values clause must be an array'') (\<lambda>_.
         reduce_with (reduce_any actualValues) testValues False)))))"

definition evaluateContainsAll :: "AlConditionalSubject \<Rightarrow> jsvalue \<Rightarrow> error + bool" where
  "evaluateContainsAll target op =
     andThen (two_elements ''`in` descriptor should have two elements'' op) (\<lambda>_.
     andThen (normalizeProperty (element op 0)) (\<lambda>property.
       let actualValues = getPropertyValue target property in
       andThen (assert (typeof_object actualValues)
         ''`contains_all` operator must reference a property that is an object or an array'') (\<lambda>_.
       let testValues = element op 1 in
       andThen (hasOwnProperty testValues ''length'') (\<lambda>h.
       andThen (assert h ''`in` values clause must be an array'') (\<lambda>_.
         reduce_with (reduce_all actualValues) testValues True)))))"

text \<open>
  \<open>dispatchOperator\<close> with \<open>evaluateAnd\<close>, \<open>evaluateOr\<close> and \<open>evaluateNot\<close> (inlined at the
  key \<open>not\<close>).  \<open>Object.keys(op)\<close> is empty for a number or a boolean, the indices for a
  string or an array (so the one key of a singleton is \<open>0\<close>), and the keys of an object.
  The loops keep the short circuit of \<open>result && ...\<close> and \<open>result || ...\<close>.  On a
  non-empty string the first round dispatches on a one-character string, which throws.
  A plain object that owns a property \<open>length\<close> is compared and indexed through
  conversions of the runtime: not modelled.
\<close>

definition single_key_message :: string where
  "single_key_message = ''an operator descriptor should have a single key.''"

definition group_message :: string where
  "group_message = ''`and` descriptor should consist of an array of non-zero length''"

fun dispatchOperator :: "AlConditionalSubject \<Rightarrow> jsvalue \<Rightarrow> error + bool"
and evaluateAnd :: "AlConditionalSubject \<Rightarrow> jsvalue \<Rightarrow> error + bool"
and evaluateOr :: "AlConditionalSubject \<Rightarrow> jsvalue \<Rightarrow> error + bool"
and and_loop :: "AlConditionalSubject \<Rightarrow> jsvalue list \<Rightarrow> bool \<Rightarrow> error + bool"
and or_loop :: "AlConditionalSubject \<Rightarrow> jsvalue list \<Rightarrow> bool \<Rightarrow> error + bool"
where
  "dispatchOperator target JUndefined = Inl TypeError"
| "dispatchOperator target JNull = Inl TypeError"
| "dispatchOperator target (JBool b) = Inl (FormatError single_key_message)"
| "dispatchOperator target (JNum n) = Inl (FormatError single_key_message)"
| "dispatchOperator target (JStr s) =
     (if length s = 1 then Inl (UnknownOperator ''0'') else Inl (FormatError single_key_message))"
| "dispatchOperator target (JArr xs) =
     (if length xs = 1 then Inl (UnknownOperator ''0'') else Inl (FormatError single_key_message))"
| "dispatchOperator target (JObj []) = Inl (FormatError single_key_message)"
| "dispatchOperator target (JObj (kv # kv' # kvs)) = Inl (FormatError single_key_message)"
| "dispatchOperator target (JObj [(operatorKey, operatorValue)]) =
     (if operatorKey = ''and'' then evaluateAnd target operatorValue
      else if operatorKey = ''or'' then evaluateOr target operatorValue
      else if operatorKey = ''='' then evaluateEquals target operatorValue
      else if operatorKey = ''!='' then evaluateNotEquals target operatorValue
      else if operatorKey = ''in'' then evaluateIn target operatorValue
      else if operatorKey = ''not'' then
        (case dispatchOperator target operatorValue of Inl e \<Rightarrow> Inl e | Inr b \<Rightarrow> Inr (\<not> b))
      else if operatorKey = ''contains_all'' then evaluateContainsAll target operatorValue
      else if operatorKey = ''contains_any'' then evaluateContainsAny target operatorValue
      else Inl (UnknownOperator operatorKey))"
| "evaluateAnd target (JArr xs) =
     (if length xs > 0 then and_loop target xs True else Inl (FormatError group_message))"
| "evaluateAnd target (JStr s) =
     (if length s > 0 then Inl (UnknownOperator ''0'') else Inl (FormatError group_message))"
| "evaluateAnd target (JObj kvs) =
     (case hasOwnProperty (JObj kvs) ''length'' of
        Inl e \<Rightarrow> Inl e
      | Inr h \<Rightarrow> if h then Inl NotModelled else Inl (FormatError group_message))"
| "evaluateAnd target (JBool b) = Inl (FormatError group_message)"
| "evaluateAnd target (JNum n) = Inl (FormatError group_message)"
| "evaluateAnd target JNull = Inl TypeError"
| "evaluateAnd target JUndefined = Inl TypeError"
| "evaluateOr target (JArr xs) =
     (if length xs > 0 then or_loop target xs False else Inl (FormatError group_message))"
| "evaluateOr target (JStr s) =
     (if length s > 0 then Inl (UnknownOperator ''0'') else Inl (FormatError group_message))"
| "evaluateOr target (JObj kvs) =
     (case hasOwnProperty (JObj kvs) ''length'' of
        Inl e \<Rightarrow> Inl e
      | Inr h \<Rightarrow> if h then Inl NotModelled else Inl (FormatError group_message))"
| "evaluateOr target (JBool b) = Inl (FormatError group_message)"
| "evaluateOr target (JNum n) = Inl (FormatError group_message)"
| "evaluateOr target JNull = Inl TypeError"
| "evaluateOr target JUndefined = Inl TypeError"
| "and_loop target [] result = Inr result"
| "and_loop target (x # xs) result =
     (if result
      then (case dispatchOperator target x of Inl e \<Rightarrow> Inl e | Inr b \<Rightarrow> and_loop target xs b)
      else and_loop target xs False)"
| "or_loop target [] result = Inr result"
| "or_loop target (x # xs) result =
     (if result then or_loop target xs True
      else (case dispatchOperator target x of Inl e \<Rightarrow> Inl e | Inr b \<Rightarrow> or_loop target xs b))"

text \<open>\<open>test(target, query)\<close> of an evaluator constructed with \<open>this_query\<close> (\<open>JUndefined\<close> where
  an argument is left out).\<close>

definition test :: "jsvalue \<Rightarrow> AlConditionalSubject \<Rightarrow> jsvalue \<Rightarrow> error + bool" where
  "test this_query target query =
     dispatchOperator target (if truthy query then query else this_query)"

text \<open>A subject that holds the given properties, whatever the namespace asked for.\<close>

definition subject_of :: "(string \<times> jsvalue) list \<Rightarrow> AlConditionalSubject" where
  "subject_of properties ident ns =
     (case ident of
        JStr k \<Rightarrow> (case map_of properties k of Some v \<Rightarrow> v | None \<Rightarrow> JUndefined)
      | _ \<Rightarrow> JUndefined)"

section \<open>Properties of the facade\<close>

lemmas condition_defs =
  getConditions_def root_def new_SQXOperatorAnd_def new_SQXOperatorOr_def set_condition_def
  and_query_def or_query_def

subsection \<open>The WHERE root\<close>

text \<open>
  C1.  \<open>getConditions()\<close> returns the root of the WHERE clause as it is after the call, so
  never an absent one.  On a query without WHERE clause it creates one whose root is an
  AND group with zero items, and returns that root; on a query with WHERE clause it
  returns the clause's root and changes nothing; the root is an operator whenever the
  stored one is.  A second call returns the same root and leaves the query as the first
  call left it.
\<close>

theorem getConditions_lazy_root:
  "(case getConditions q of (r, q') \<Rightarrow>
      root q' = Some r \<and>
      (where_clause q = None \<longrightarrow>
         isOperatorAnd r \<and> items r = Some [] \<and>
         q' = q \<lparr> where_clause := Some \<lparr> condition = r \<rparr> \<rparr>) \<and>
      (\<forall>w. where_clause q = Some w \<longrightarrow> r = condition w \<and> q' = q) \<and>
      ((\<forall>w. where_clause q = Some w \<longrightarrow> isOperatorBase (condition w)) \<longrightarrow> isOperatorBase r) \<and>
      getConditions q' = (r, q'))"
  by (cases "where_clause q") (simp_all add: condition_defs)

theorem getConditions_lazy_root_witness:
  "where_clause new_SQXSearchQuery = None \<and>
   getConditions new_SQXSearchQuery =
     (OperatorAnd ''AND'' [],
      new_SQXSearchQuery \<lparr> where_clause := Some \<lparr> condition = OperatorAnd ''AND'' [] \<rparr> \<rparr>) \<and>
   getConditions (snd (getConditions new_SQXSearchQuery)) = getConditions new_SQXSearchQuery \<and>
   where_clause (new_SQXSearchQuery
      \<lparr> where_clause := Some \<lparr> condition = Operator ''a = 1'' (Some (PropertyRef ''a'')) [] \<rparr> \<rparr>)
     = Some \<lparr> condition = Operator ''a = 1'' (Some (PropertyRef ''a'')) [] \<rparr> \<and>
   isOperatorBase (condition \<lparr> condition = Operator ''a = 1'' (Some (PropertyRef ''a'')) [] \<rparr>) \<and>
   getConditions (new_SQXSearchQuery
      \<lparr> where_clause := Some \<lparr> condition = Operator ''a = 1'' (Some (PropertyRef ''a'')) [] \<rparr> \<rparr>)
     = (Operator ''a = 1'' (Some (PropertyRef ''a'')) [],
        new_SQXSearchQuery
          \<lparr> where_clause := Some \<lparr> condition = Operator ''a = 1'' (Some (PropertyRef ''a'')) [] \<rparr> \<rparr>)"
  using getConditions_lazy_root [of new_SQXSearchQuery]
    getConditions_lazy_root [of "new_SQXSearchQuery
      \<lparr> where_clause := Some \<lparr> condition = Operator ''a = 1'' (Some (PropertyRef ''a'')) [] \<rparr> \<rparr>"]
  by (simp add: condition_defs new_SQXSearchQuery_def)

text \<open>
  C2.  With \<open>r\<close> the root that \<open>getConditions()\<close> returns: \<open>and()\<close> does nothing more than
  \<open>getConditions()\<close> when \<open>r\<close> is an AND group, and otherwise replaces the root by a fresh
  AND group whose only item is \<open>r\<close>; likewise \<open>or()\<close> with OR groups.  Hence after \<open>and()\<close>
  the root is an AND group \<open>a\<close>, a following \<open>or()\<close> makes the root the OR group of the single
  item \<open>a\<close>, one level deeper, and a second \<open>and()\<close> changes nothing.
\<close>

theorem and_or_wrap:
  "(case getConditions q of (r, q1) \<Rightarrow>
      (isOperatorAnd r \<longrightarrow> and_query q = q1) \<and>
      (\<not> isOperatorAnd r \<longrightarrow> and_query q = set_condition (OperatorAnd ''AND'' [r]) q1
          \<and> root (and_query q) = Some (OperatorAnd ''AND'' [r])) \<and>
      (isOperatorOr r \<longrightarrow> or_query q = q1) \<and>
      (\<not> isOperatorOr r \<longrightarrow> or_query q = set_condition (OperatorOr ''OR'' [r]) q1
          \<and> root (or_query q) = Some (OperatorOr ''OR'' [r]))) \<and>
   (\<exists>a. root (and_query q) = Some a \<and> isOperatorAnd a \<and>
        root (or_query (and_query q)) = Some (OperatorOr ''OR'' [a]) \<and>
        nesting (OperatorOr ''OR'' [a]) = Suc (nesting a)) \<and>
   and_query (and_query q) = and_query q"
proof (cases "where_clause q")
  case None
  then show ?thesis by (simp add: condition_defs Let_def)
next
  case (Some w)
  then show ?thesis
    by (cases "condition w") (simp_all add: condition_defs Let_def)
qed

theorem and_or_wrap_witness:
  "getConditions (new_SQXSearchQuery
      \<lparr> where_clause := Some \<lparr> condition = Operator ''a = 1'' (Some (PropertyRef ''a'')) [] \<rparr> \<rparr>)
     = (Operator ''a = 1'' (Some (PropertyRef ''a'')) [],
        new_SQXSearchQuery
          \<lparr> where_clause := Some \<lparr> condition = Operator ''a = 1'' (Some (PropertyRef ''a'')) [] \<rparr> \<rparr>) \<and>
   \<not> isOperatorAnd (Operator ''a = 1'' (Some (PropertyRef ''a'')) []) \<and>
   \<not> isOperatorOr (Operator ''a = 1'' (Some (PropertyRef ''a'')) []) \<and>
   root (and_query (new_SQXSearchQuery
      \<lparr> where_clause := Some \<lparr> condition = Operator ''a = 1'' (Some (PropertyRef ''a'')) [] \<rparr> \<rparr>))
     = Some (OperatorAnd ''AND'' [Operator ''a = 1'' (Some (PropertyRef ''a'')) []]) \<and>
   root (or_query (and_query (new_SQXSearchQuery
      \<lparr> where_clause := Some \<lparr> condition = Operator ''a = 1'' (Some (PropertyRef ''a'')) [] \<rparr> \<rparr>)))
     = Some (OperatorOr ''OR'' [OperatorAnd ''AND'' [Operator ''a = 1'' (Some (PropertyRef ''a'')) []]]) \<and>
   isOperatorAnd (fst (getConditions new_SQXSearchQuery)) \<and>
   and_query new_SQXSearchQuery = snd (getConditions new_SQXSearchQuery) \<and>
   root (or_query new_SQXSearchQuery) = Some (OperatorOr ''OR'' [OperatorAnd ''AND'' []]) \<and>
   isOperatorOr (fst (getConditions (new_SQXSearchQuery
      \<lparr> where_clause := Some \<lparr> condition = OperatorOr ''OR'' [] \<rparr> \<rparr>))) \<and>
   or_query (new_SQXSearchQuery \<lparr> where_clause := Some \<lparr> condition = OperatorOr ''OR'' [] \<rparr> \<rparr>)
     = new_SQXSearchQuery \<lparr> where_clause := Some \<lparr> condition = OperatorOr ''OR'' [] \<rparr> \<rparr> \<and>
   and_query (and_query (new_SQXSearchQuery
      \<lparr> where_clause := Some \<lparr> condition = OperatorOr ''OR'' [] \<rparr> \<rparr>))
     = new_SQXSearchQuery
        \<lparr> where_clause := Some \<lparr> condition = OperatorAnd ''AND'' [OperatorOr ''OR'' []] \<rparr> \<rparr>"
  using and_or_wrap [of "new_SQXSearchQuery
      \<lparr> where_clause := Some \<lparr> condition = Operator ''a = 1'' (Some (PropertyRef ''a'')) [] \<rparr> \<rparr>"]
    and_or_wrap [of new_SQXSearchQuery]
    and_or_wrap [of "new_SQXSearchQuery
      \<lparr> where_clause := Some \<lparr> condition = OperatorOr ''OR'' [] \<rparr> \<rparr>"]
  by (simp add: condition_defs new_SQXSearchQuery_def)

subsection \<open>Traversal\<close>

lemma run_calls_append:
  "run_calls cb (xs @ ys) s =
     (case run_calls cb xs s of Inl e \<Rightarrow> Inl e | Inr s' \<Rightarrow> run_calls cb ys s')"
  by (induction xs arbitrary: s) (auto split: sum.splits)

lemma traverseEach_visits:
  assumes "\<And>x depth s. x \<in> set xs \<Longrightarrow>
             traverseFrom cb x depth s = run_calls cb (spec_visits x depth) s"
  shows "traverseEach cb xs depth s =
           run_calls cb (concat (map (\<lambda>x. spec_visits x depth) xs)) s"
  using assms
proof (induction xs arbitrary: s)
  case Nil
  then show ?case by simp
next
  case (Cons x xs)
  then show ?case by (simp add: run_calls_append split: sum.splits)
qed

lemma traverseFrom_visits:
  "traverseFrom cb t depth s = run_calls cb (spec_visits t depth) s"
proof (induction t arbitrary: depth s)
  case (OperatorProjectAs t org al p ds)
  then show ?case by (simp add: traverseEach_visits split: sum.splits)
next
  case (Operator t p ds)
  then show ?case by (simp add: traverseEach_visits split: sum.splits)
qed (simp_all add: traverseEach_visits split: sum.splits)

lemma traverseEach_all_visits:
  "traverseEach cb xs depth s = run_calls cb (concat (map (\<lambda>x. spec_visits x depth) xs)) s"
  by (rule traverseEach_visits) (rule traverseFrom_visits)

lemma run_calls_record: "run_calls record_call calls s = Inr (s @ calls)"
  by (induction calls arbitrary: s) (auto simp: record_call_def)

lemma spec_visits_no_group:
  "(t', d') \<in> set (spec_visits t depth) \<Longrightarrow> \<not> isGroupBase t'"
  by (induction t depth rule: spec_visits.induct) auto

lemma spec_visits_group:
  "items t = Some xs \<Longrightarrow> spec_visits t depth = concat (map (\<lambda>x. spec_visits x (depth + 1)) xs)"
  by (cases t) auto

lemma spec_visits_operator:
  "isOperatorBase t \<Longrightarrow> \<not> isGroupBase t \<Longrightarrow>
   spec_visits t depth = (t, depth) # concat (map (\<lambda>x. spec_visits x (depth + 1)) (getDescendants t))"
  by (cases t) auto

lemma spec_visits_leaf: "\<not> isOperatorBase t \<Longrightarrow> spec_visits t depth = [(t, depth)]"
  by (cases t) auto

text \<open>
  C3.  With \<open>from\<close> unset, the traversal hands to the callback, in this order, what it
  hands to it for the SELECT, WHERE, ORDER BY, GROUP BY, GROUP BY PERMUTED, HAVING and
  LIMIT clauses that are present, each at the given depth; the TIME RANGE clause plays
  no part.  From a token, it makes the calls of \<open>spec_visits\<close> in their order, up to the
  first call that throws: for a group it goes through the items at \<open>depth + 1\<close> and never
  hands a group to the callback; for an operator that is not a group it calls the
  callback on the operator and its depth first, then goes through the descendants at
  \<open>depth + 1\<close>; for any other token it calls the callback and nothing more.
\<close>

theorem traverseDescendants_order:
  "traverseDescendants selectToken whereToken q cb None depth s =
     run_calls cb
       (concat (map (\<lambda>c. spec_visits c depth)
          (List.map_filter (\<lambda>x. x)
             [map_option selectToken (select q), map_option whereToken (where_clause q),
              order_by q, group_by q, group_by_permuted q, having q, limit q]))) s \<and>
   traverseDescendants selectToken whereToken (q \<lparr> time_range := tr \<rparr>) cb None depth s =
     traverseDescendants selectToken whereToken q cb None depth s \<and>
   traverseDescendants selectToken whereToken q cb (Some t) depth s =
     run_calls cb (spec_visits t depth) s \<and>
   traverseDescendants selectToken whereToken q record_call (Some t) depth [] =
     Inr (spec_visits t depth) \<and>
   (\<forall>xs. items t = Some xs \<longrightarrow>
      isGroupBase t \<and>
      traverseFrom cb t depth s = traverseEach cb xs (depth + 1) s \<and>
      spec_visits t depth = concat (map (\<lambda>x. spec_visits x (depth + 1)) xs)) \<and>
   (isOperatorBase t \<and> \<not> isGroupBase t \<longrightarrow>
      traverseFrom cb t depth s =
        (case cb t depth s of Inl e \<Rightarrow> Inl e
         | Inr s' \<Rightarrow> traverseEach cb (getDescendants t) (depth + 1) s') \<and>
      spec_visits t depth =
        (t, depth) # concat (map (\<lambda>x. spec_visits x (depth + 1)) (getDescendants t))) \<and>
   (\<not> isOperatorBase t \<longrightarrow>
      traverseFrom cb t depth s = cb t depth s \<and> spec_visits t depth = [(t, depth)]) \<and>
   (\<forall>(t', d') \<in> set (spec_visits t depth). \<not> isGroupBase t')"
proof -
  have a: "traverseDescendants selectToken whereToken q cb None depth s =
     run_calls cb
       (concat (map (\<lambda>c. spec_visits c depth)
          (List.map_filter (\<lambda>x. x)
             [map_option selectToken (select q), map_option whereToken (where_clause q),
              order_by q, group_by q, group_by_permuted q, having q, limit q]))) s"
    by (simp only: traverseDescendants_def topLevelClauses_def option.case
          traverseEach_all_visits)
  have b: "traverseDescendants selectToken whereToken (q \<lparr> time_range := tr \<rparr>) cb None depth s =
     traverseDescendants selectToken whereToken q cb None depth s"
    by (simp add: traverseDescendants_def topLevelClauses_def)
  have c: "traverseDescendants selectToken whereToken q cb (Some t) depth s =
     run_calls cb (spec_visits t depth) s"
    by (simp add: traverseDescendants_def traverseFrom_visits)
  have d: "traverseDescendants selectToken whereToken q record_call (Some t) depth [] =
     Inr (spec_visits t depth)"
    by (simp add: traverseDescendants_def traverseFrom_visits run_calls_record)
  have e: "\<forall>xs. items t = Some xs \<longrightarrow>
      isGroupBase t \<and>
      traverseFrom cb t depth s = traverseEach cb xs (depth + 1) s \<and>
      spec_visits t depth = concat (map (\<lambda>x. spec_visits x (depth + 1)) xs)"
    by (cases t) auto
  have f: "isOperatorBase t \<and> \<not> isGroupBase t \<longrightarrow>
      traverseFrom cb t depth s =
        (case cb t depth s of Inl e \<Rightarrow> Inl e
         | Inr s' \<Rightarrow> traverseEach cb (getDescendants t) (depth + 1) s') \<and>
      spec_visits t depth =
        (t, depth) # concat (map (\<lambda>x. spec_visits x (depth + 1)) (getDescendants t))"
    by (cases t) (auto split: sum.splits)
  have g: "\<not> isOperatorBase t \<longrightarrow>
      traverseFrom cb t depth s = cb t depth s \<and> spec_visits t depth = [(t, depth)]"
    by (cases t) auto
  have h: "\<forall>(t', d') \<in> set (spec_visits t depth). \<not> isGroupBase t'"
    using spec_visits_no_group by blast
  from a b c d e f g h show ?thesis by blast
qed

theorem traverseDescendants_order_witness:
  "items (OperatorAnd ''AND'' [Operator ''a = 1'' (Some (PropertyRef ''a'')) [],
       OperatorOr ''OR'' [Operator ''b = 2'' (Some (PropertyRef ''b'')) [ScalarValue ''2'']]])
     = Some [Operator ''a = 1'' (Some (PropertyRef ''a'')) [],
       OperatorOr ''OR'' [Operator ''b = 2'' (Some (PropertyRef ''b'')) [ScalarValue ''2'']]] \<and>
   traverseDescendants (\<lambda>c. Group ''SELECT'' (columns c)) (\<lambda>c. Operator ''WHERE'' None [condition c])
     new_SQXSearchQuery record_call
     (Some (OperatorAnd ''AND'' [Operator ''a = 1'' (Some (PropertyRef ''a'')) [],
       OperatorOr ''OR'' [Operator ''b = 2'' (Some (PropertyRef ''b'')) [ScalarValue ''2'']]])) 0 []
     = Inr [(Operator ''a = 1'' (Some (PropertyRef ''a'')) [], 1),
            (Operator ''b = 2'' (Some (PropertyRef ''b'')) [ScalarValue ''2''], 2),
            (ScalarValue ''2'', 3)] \<and>
   isOperatorBase (Operator ''b = 2'' (Some (PropertyRef ''b'')) [ScalarValue ''2'']) \<and>
   \<not> isGroupBase (Operator ''b = 2'' (Some (PropertyRef ''b'')) [ScalarValue ''2'']) \<and>
   spec_visits (Operator ''b = 2'' (Some (PropertyRef ''b'')) [ScalarValue ''2'']) 2
     = [(Operator ''b = 2'' (Some (PropertyRef ''b'')) [ScalarValue ''2''], 2), (ScalarValue ''2'', 3)] \<and>
   \<not> isOperatorBase (ScalarValue ''2'') \<and>
   traverseFrom record_call (ScalarValue ''2'') 3 [] = Inr [(ScalarValue ''2'', 3)] \<and>
   traverseDescendants (\<lambda>c. Group ''SELECT'' (columns c)) (\<lambda>c. Operator ''WHERE'' None [condition c])
     (new_SQXSearchQuery \<lparr> select := Some \<lparr> columns = [PropertyRef ''name''] \<rparr>,
         where_clause := Some \<lparr> condition = OperatorAnd ''AND'' [] \<rparr>,
         limit := Some (Token ''LIMIT 5''), time_range := Some (Token ''1h'') \<rparr>)
     record_call None 0 []
     = Inr [(PropertyRef ''name'', 1), (Operator ''WHERE'' None [OperatorAnd ''AND'' []], 0),
            (Token ''LIMIT 5'', 0)]"
  using traverseDescendants_order
      [of "\<lambda>c. Group ''SELECT'' (columns c)" "\<lambda>c. Operator ''WHERE'' None [condition c]"
          new_SQXSearchQuery record_call 0 "[]" "Some (Token ''1h'')"
          "OperatorAnd ''AND'' [Operator ''a = 1'' (Some (PropertyRef ''a'')) [],
             OperatorOr ''OR'' [Operator ''b = 2'' (Some (PropertyRef ''b'')) [ScalarValue ''2'']]]"]
    traverseDescendants_order
      [of "\<lambda>c. Group ''SELECT'' (columns c)" "\<lambda>c. Operator ''WHERE'' None [condition c]"
          "new_SQXSearchQuery \<lparr> select := Some \<lparr> columns = [PropertyRef ''name''] \<rparr>,
             where_clause := Some \<lparr> condition = OperatorAnd ''AND'' [] \<rparr>,
             limit := Some (Token ''LIMIT 5''), time_range := Some (Token ''1h'') \<rparr>"
          record_call 0 "[]" None
          "Operator ''b = 2'' (Some (PropertyRef ''b'')) [ScalarValue ''2'']"]
    traverseDescendants_order
      [of "\<lambda>c. Group ''SELECT'' (columns c)" "\<lambda>c. Operator ''WHERE'' None [condition c]"
          new_SQXSearchQuery record_call 3 "[]" None "ScalarValue ''2''"]
  by (simp add: new_SQXSearchQuery_def record_call_def List.map_filter_simps)

subsection \<open>Conditions on a property\<close>

lemma collect_condition_step:
  "collect_condition target t d operators =
     (if lacks_property t then Inl TypeError
      else Inr (operators @ (if tests_property target t then [t] else [])))"
  by (cases "opPropertyRef t")
     (simp_all add: collect_condition_def lacks_property_def tests_property_def)

lemma run_calls_filter:
  assumes "\<And>t d operators. cb t d operators =
             (if bad t then Inl err else Inr (operators @ (if good t then [t] else [])))"
  shows "run_calls cb calls operators =
           (if list_ex (\<lambda>c. bad (fst c)) calls then Inl err
            else Inr (operators @ filter good (map fst calls)))"
proof (induction calls arbitrary: operators)
  case Nil
  then show ?case by simp
next
  case (Cons c calls)
  obtain t d where c: "c = (t, d)" by (cases c)
  show ?case
  proof (cases "bad t")
    case True
    have "cb t d operators = Inl err" by (simp add: assms True)
    then show ?thesis by (simp add: c True)
  next
    case False
    have "cb t d operators = Inr (operators @ (if good t then [t] else []))"
      by (simp add: assms False)
    then show ?thesis by (simp add: c False Cons)
  qed
qed

lemma run_calls_collect:
  "run_calls (collect_condition target) calls operators =
     (if list_ex (\<lambda>c. lacks_property (fst c)) calls then Inl TypeError
      else Inr (operators @ filter (tests_property target) (map fst calls)))"
  by (rule run_calls_filter) (rule collect_condition_step)

lemma getPropertyConditions_collects:
  "getPropertyConditions target q =
     (let (conditions, q1) = getConditions q; calls = spec_visits conditions 0 in
      (if list_ex (\<lambda>c. lacks_property (fst c)) calls then Inl TypeError
       else Inr (filter (tests_property target) (map fst calls)), q1))"
  by (simp add: getPropertyConditions_def traverseFrom_visits run_calls_collect
        split: prod.splits)

lemma getPropertyCondition_cases:
  "getPropertyCondition target q =
     (case getPropertyConditions target q of
        (Inl e, q1) \<Rightarrow> (Inl e, q1)
      | (Inr [], q1) \<Rightarrow> (Inr None, q1)
      | (Inr [x], q1) \<Rightarrow> (Inr (Some x), q1)
      | (Inr (x # y # zs), q1) \<Rightarrow> (Inl MultipleConditionsError, q1))"
  by (simp add: getPropertyCondition_def split: prod.splits sum.splits list.splits)

text \<open>
  C4.  \<open>getPropertyConditions(p)\<close> is to collect the operators met by the traversal from the
  WHERE root whose own property reference has the text \<open>p\<close>.  It does so when every
  operator met has a property reference (\<open>getPropertyConditions_collects\<close>), and
  \<open>getPropertyCondition\<close> then answers by the length of the collection
  (\<open>getPropertyCondition_cases\<close>).  On the root \<open>AND(status = open, NOT(x = 1))\<close>, whose
  second item is an operator without property reference, the collection to return is
  the single comparator on \<open>status\<close>, and the call throws a \<open>TypeError\<close> instead.
\<close>

theorem getPropertyConditions_operator_without_property:
  "fst (getPropertyConditions ''status''
     (new_SQXSearchQuery \<lparr> where_clause := Some \<lparr> condition =
        OperatorAnd ''AND''
          [Operator ''status = open'' (Some (PropertyRef ''status'')) [],
           Operator ''NOT'' None [Operator ''x = 1'' (Some (PropertyRef ''x'')) []]] \<rparr> \<rparr>))
     = Inl TypeError \<and>
   filter (tests_property ''status'')
     (map fst (spec_visits (OperatorAnd ''AND''
          [Operator ''status = open'' (Some (PropertyRef ''status'')) [],
           Operator ''NOT'' None [Operator ''x = 1'' (Some (PropertyRef ''x'')) []]]) 0))
     = [Operator ''status = open'' (Some (PropertyRef ''status'')) []]"
  by (simp add: getPropertyConditions_def getConditions_def new_SQXSearchQuery_def
        collect_condition_def tests_property_def)

subsection \<open>Construction\<close>

text \<open>
  C5.  When the parser has recorded an error for the text, \<open>fromQueryString\<close> fails with
  \<open>InvalidQuery\<close> and returns no query; when it has recorded none, \<open>fromQueryString\<close>
  returns the query built from the parser, whose clauses are the parser's clause fields.
\<close>

theorem fromQueryString_errors:
  "(state_errors (evaluate expression) \<noteq> [] \<longrightarrow>
      fromQueryString evaluate expression = Inl InvalidQuery) \<and>
   (state_errors (evaluate expression) = [] \<longrightarrow>
      fromQueryString evaluate expression = Inr (fromParser (evaluate expression))) \<and>
   select (fromParser parser) = parser_select parser \<and>
   where_clause (fromParser parser) = parser_where parser \<and>
   order_by (fromParser parser) = parser_orderBy parser \<and>
   group_by (fromParser parser) = parser_groupBy parser \<and>
   group_by_permuted (fromParser parser) = parser_groupByPermuted parser \<and>
   limit (fromParser parser) = parser_limit parser \<and>
   having (fromParser parser) = parser_having parser"
  by (simp add: fromQueryString_def fromParser_def new_SQXSearchQuery_def Let_def)

theorem fromQueryString_errors_witness:
  "state_errors ((\<lambda>e. \<lparr> state_errors = (if e = ''SELECT'' then [''expected a column''] else []),
        parser_select = Some \<lparr> columns = [PropertyRef ''name''] \<rparr>, parser_where = None,
        parser_orderBy = None, parser_groupBy = None, parser_groupByPermuted = None,
        parser_having = None, parser_limit = None, parser_timeRange = None \<rparr>) ''SELECT'')
     \<noteq> [] \<and>
   fromQueryString (\<lambda>e. \<lparr> state_errors = (if e = ''SELECT'' then [''expected a column''] else []),
        parser_select = Some \<lparr> columns = [PropertyRef ''name''] \<rparr>, parser_where = None,
        parser_orderBy = None, parser_groupBy = None, parser_groupByPermuted = None,
        parser_having = None, parser_limit = None, parser_timeRange = None \<rparr>) ''SELECT''
     = Inl InvalidQuery \<and>
   state_errors ((\<lambda>e. \<lparr> state_errors = (if e = ''SELECT'' then [''expected a column''] else []),
        parser_select = Some \<lparr> columns = [PropertyRef ''name''] \<rparr>, parser_where = None,
        parser_orderBy = None, parser_groupBy = None, parser_groupByPermuted = None,
        parser_having = None, parser_limit = None, parser_timeRange = None \<rparr>) ''SELECT name'')
     = [] \<and>
   fromQueryString (\<lambda>e. \<lparr> state_errors = (if e = ''SELECT'' then [''expected a column''] else []),
        parser_select = Some \<lparr> columns = [PropertyRef ''name''] \<rparr>, parser_where = None,
        parser_orderBy = None, parser_groupBy = None, parser_groupByPermuted = None,
        parser_having = None, parser_limit = None, parser_timeRange = None \<rparr>) ''SELECT name''
     = Inr (new_SQXSearchQuery \<lparr> select := Some \<lparr> columns = [PropertyRef ''name''] \<rparr> \<rparr>)"
  using fromQueryString_errors
      [where evaluate = "\<lambda>e. \<lparr> state_errors = (if e = ''SELECT'' then [''expected a column''] else []),
        parser_select = Some \<lparr> columns = [PropertyRef ''name''] \<rparr>, parser_where = None,
        parser_orderBy = None, parser_groupBy = None, parser_groupByPermuted = None,
        parser_having = None, parser_limit = None, parser_timeRange = None \<rparr>"
        and expression = "''SELECT''"]
    fromQueryString_errors
      [where evaluate = "\<lambda>e. \<lparr> state_errors = (if e = ''SELECT'' then [''expected a column''] else []),
        parser_select = Some \<lparr> columns = [PropertyRef ''name''] \<rparr>, parser_where = None,
        parser_orderBy = None, parser_groupBy = None, parser_groupByPermuted = None,
        parser_having = None, parser_limit = None, parser_timeRange = None \<rparr>"
        and expression = "''SELECT name''"]
  by (simp add: fromParser_def new_SQXSearchQuery_def)

text \<open>
  C10.  A query returned by \<open>fromQueryString\<close> has no TIME RANGE clause: \<open>fromParser\<close>
  leaves \<open>time_range\<close> as the constructor set it, whatever the parser holds, and so does
  \<open>empty\<close>.  A query returned by \<open>fromJson\<close> has the TIME RANGE clause that the parser's
  JSON path returned.
\<close>

theorem fromQueryString_time_range:
  "(\<forall>q. fromQueryString evaluate expression = Inr q \<longrightarrow> time_range q = None) \<and>
   time_range (fromParser parser) = None \<and>
   time_range (empty_query n) = None \<and>
   (\<forall>q. fromJson parser_fromJson rawData = Inr q \<longrightarrow>
      time_range q = parsed_time_range (parser_fromJson rawData))"
  by (auto simp: fromQueryString_def fromParser_def new_SQXSearchQuery_def empty_query_def
        fromJson_def andThen_def Let_def split: if_splits sum.splits)

theorem fromQueryString_time_range_witness:
  "fromQueryString (\<lambda>e. \<lparr> state_errors = [],
        parser_select = None, parser_where = None,
        parser_orderBy = None, parser_groupBy = None, parser_groupByPermuted = None,
        parser_having = None, parser_limit = None,
        parser_timeRange = Some (Token ''1h'') \<rparr>) ''SELECT name''
     = Inr new_SQXSearchQuery \<and>
   time_range new_SQXSearchQuery = None \<and>
   fromJson (\<lambda>raw. \<lparr> parsed_select = None, parsed_where = None, parsed_order_by = None,
        parsed_group_by = None, parsed_group_by_permuted = None, parsed_limit = None,
        parsed_having = None, parsed_time_range = Some (Token ''1h'') \<rparr>)
      (JObj [(''name'', JStr ''q'')])
     = Inr (new_SQXSearchQuery \<lparr> name := JStr ''q'', time_range := Some (Token ''1h'') \<rparr>) \<and>
   time_range (new_SQXSearchQuery \<lparr> name := JStr ''q'', time_range := Some (Token ''1h'') \<rparr>)
     = Some (Token ''1h'')"
  using fromQueryString_time_range
      [where evaluate = "\<lambda>e. \<lparr> state_errors = [],
        parser_select = None, parser_where = None,
        parser_orderBy = None, parser_groupBy = None, parser_groupByPermuted = None,
        parser_having = None, parser_limit = None,
        parser_timeRange = Some (Token ''1h'') \<rparr>"
        and expression = "''SELECT name''"
        and parser_fromJson = "\<lambda>raw. \<lparr> parsed_select = None, parsed_where = None,
        parsed_order_by = None,
        parsed_group_by = None, parsed_group_by_permuted = None, parsed_limit = None,
        parsed_having = None, parsed_time_range = Some (Token ''1h'') \<rparr>"
        and rawData = "JObj [(''name'', JStr ''q'')]"]
  by (simp add: fromQueryString_def fromParser_def new_SQXSearchQuery_def fromJson_def
        own_or_null_def andThen_def)

subsection \<open>Columns\<close>

lemma describe_column_spec:
  "describe_column f c (results, agg) =
     (results @ (case spec_descriptor f c of None \<Rightarrow> [] | Some d \<Rightarrow> [d]),
      agg \<or> is_aggregate_column c)"
  by (cases c) auto

lemma fold_describe_column:
  "fold (describe_column f) cs (results, agg) =
     (results @ List.map_filter (spec_descriptor f) cs, agg \<or> list_ex is_aggregate_column cs)"
proof (induction cs arbitrary: results agg)
  case Nil
  then show ?case by simp
next
  case (Cons c cs)
  then show ?case
    by (cases "spec_descriptor f c") (simp_all add: describe_column_spec)
qed

lemma getColumnDescriptions_spec:
  "getColumnDescriptions f q =
     (case select q of
        None \<Rightarrow> ([], q)
      | Some s \<Rightarrow>
          (List.map_filter (spec_descriptor f) (columns s),
           q \<lparr> aggregate := aggregate q \<or> list_ex is_aggregate_column (columns s) \<rparr>))"
  by (simp add: getColumnDescriptions_def fold_describe_column split: option.splits)

text \<open>
  C6.  On the SELECT list \<open>count(x) AS total, name\<close> the descriptors are
  \<open>{name: total, asField: count(x), type: number, isAggregate: true}\<close> and
  \<open>{name: name, type: any}\<close> (with no \<open>asField\<close>, and \<open>isAggregate\<close> false), in this order,
  and \<open>isAggregate()\<close> returns true.  In general the descriptors are those of
  \<open>spec_descriptor\<close>, column by column: a property reference gives type \<open>any\<close>; a
  projection gives its alias as name, with type \<open>number\<close> and \<open>isAggregate\<close> true when
  its origin is an operator, and type \<open>any\<close> and \<open>isAggregate\<close> false when it is not; any
  other operator gives type \<open>number\<close>; any other token is skipped.
\<close>

theorem getColumnDescriptions_columns:
  "fst (getColumnDescriptions toQueryString_text
     (q \<lparr> select := Some \<lparr> columns =
        [OperatorProjectAs t (Operator ''count(x)'' p ds) (Token ''total'') p' ds',
         PropertyRef ''name''] \<rparr> \<rparr>))
     = [\<lparr> column_name = ''total'', column_type = ''number'',
          asField = Some ''count(x)'', isAggregate = True \<rparr>,
        \<lparr> column_name = ''name'', column_type = ''any'',
          asField = None, isAggregate = False \<rparr>] \<and>
   fst (isAggregate_query toQueryString_text
     (q \<lparr> select := Some \<lparr> columns =
        [OperatorProjectAs t (Operator ''count(x)'' p ds) (Token ''total'') p' ds',
         PropertyRef ''name''] \<rparr> \<rparr>)) = True \<and>
   fst (getColumnDescriptions f q) =
     (case select q of
        None \<Rightarrow> []
      | Some s \<Rightarrow> List.map_filter (spec_descriptor f) (columns s)) \<and>
   spec_descriptor f (PropertyRef r) =
     Some \<lparr> column_name = f (PropertyRef r), column_type = ''any'',
            asField = None, isAggregate = False \<rparr> \<and>
   (isOperatorBase org \<longrightarrow>
      spec_descriptor f (OperatorProjectAs t org al p ds) =
        Some \<lparr> column_name = textValue al, column_type = ''number'',
               asField = Some (textValue org), isAggregate = True \<rparr>) \<and>
   (\<not> isOperatorBase org \<longrightarrow>
      spec_descriptor f (OperatorProjectAs t org al p ds) =
        Some \<lparr> column_name = textValue al, column_type = ''any'',
               asField = Some (textValue org), isAggregate = False \<rparr>) \<and>
   spec_descriptor f (Operator t p ds) =
     Some \<lparr> column_name = f (Operator t p ds), column_type = ''number'',
            asField = None, isAggregate = False \<rparr> \<and>
   spec_descriptor f (OperatorAnd t xs) =
     Some \<lparr> column_name = f (OperatorAnd t xs), column_type = ''number'',
            asField = None, isAggregate = False \<rparr> \<and>
   spec_descriptor f (OperatorOr t xs) =
     Some \<lparr> column_name = f (OperatorOr t xs), column_type = ''number'',
            asField = None, isAggregate = False \<rparr> \<and>
   spec_descriptor f (Group t xs) =
     Some \<lparr> column_name = f (Group t xs), column_type = ''number'',
            asField = None, isAggregate = False \<rparr> \<and>
   spec_descriptor f (Token r) = None \<and>
   spec_descriptor f (ScalarValue r) = None"
  by (simp add: getColumnDescriptions_spec isAggregate_query_def toQueryString_text_def
        split: option.splits)

theorem getColumnDescriptions_columns_witness:
  "isOperatorBase (Operator ''count(x)'' None [PropertyRef ''x'']) \<and>
   \<not> isOperatorBase (PropertyRef ''x'') \<and>
   getColumnDescriptions toQueryString_text
     (new_SQXSearchQuery \<lparr> select := Some \<lparr> columns =
        [OperatorProjectAs ''count(x) AS total'' (Operator ''count(x)'' None [PropertyRef ''x''])
           (Token ''total'') None [],
         OperatorProjectAs ''x AS y'' (PropertyRef ''x'') (Token ''y'') None [],
         PropertyRef ''name''] \<rparr> \<rparr>)
     = ([\<lparr> column_name = ''total'', column_type = ''number'',
           asField = Some ''count(x)'', isAggregate = True \<rparr>,
         \<lparr> column_name = ''y'', column_type = ''any'',
           asField = Some ''x'', isAggregate = False \<rparr>,
         \<lparr> column_name = ''name'', column_type = ''any'',
           asField = None, isAggregate = False \<rparr>],
        new_SQXSearchQuery \<lparr> select := Some \<lparr> columns =
        [OperatorProjectAs ''count(x) AS total'' (Operator ''count(x)'' None [PropertyRef ''x''])
           (Token ''total'') None [],
         OperatorProjectAs ''x AS y'' (PropertyRef ''x'') (Token ''y'') None [],
         PropertyRef ''name''] \<rparr>, aggregate := True \<rparr>)"
  using getColumnDescriptions_columns
      [where q = new_SQXSearchQuery and f = toQueryString_text
         and org = "Operator ''count(x)'' None [PropertyRef ''x'']" and al = "Token ''total''"
         and t = "''count(x) AS total''" and p = None and ds = "[]"]
    getColumnDescriptions_columns
      [where q = new_SQXSearchQuery and f = toQueryString_text
         and org = "PropertyRef ''x''" and al = "Token ''y''"
         and t = "''x AS y''" and p = None and ds = "[]"]
  by (simp add: getColumnDescriptions_def new_SQXSearchQuery_def toQueryString_text_def)

subsection \<open>The cached flag\<close>

lemma aggregate_getConditions: "getConditions q = (r, q1) \<Longrightarrow> aggregate q1 = aggregate q"
  by (auto simp: getConditions_def split: option.splits)

lemma aggregate_snd_getConditions: "aggregate (snd (getConditions q)) = aggregate q"
  by (simp add: getConditions_def split: option.splits)

lemma aggregate_set_condition: "aggregate (set_condition c q) = aggregate q"
  by (simp add: set_condition_def)

lemma aggregate_and_query: "aggregate (and_query q) = aggregate q"
  by (auto simp: and_query_def aggregate_set_condition aggregate_getConditions
        split: prod.splits)

lemma aggregate_or_query: "aggregate (or_query q) = aggregate q"
  by (auto simp: or_query_def aggregate_set_condition aggregate_getConditions
        split: prod.splits)

lemma aggregate_push_condition:
  "aggregate (case push_condition c q of Inl e \<Rightarrow> snd (getConditions q) | Inr q' \<Rightarrow> q')
     = aggregate q"
  by (cases "getConditions q")
     (auto simp: push_condition_def aggregate_set_condition aggregate_getConditions
        split: sum.splits)

lemma aggregate_getPropertyConditions:
  "aggregate (snd (getPropertyConditions p q)) = aggregate q"
  by (auto simp: getPropertyConditions_def aggregate_getConditions split: prod.splits)

lemma aggregate_getPropertyCondition:
  "aggregate (snd (getPropertyCondition p q)) = aggregate q"
  using aggregate_getPropertyConditions [of p q]
  by (auto simp: getPropertyCondition_def split: prod.splits sum.splits)

lemma aggregate_getColumnDescriptions:
  "aggregate (snd (getColumnDescriptions f q)) =
     (aggregate q \<or>
      (case select q of None \<Rightarrow> False | Some s \<Rightarrow> list_ex is_aggregate_column (columns s)))"
  by (simp add: getColumnDescriptions_spec split: option.splits)

lemma isAggregate_query_flag:
  "isAggregate_query f q =
     (aggregate (snd (getColumnDescriptions f q)), snd (getColumnDescriptions f q))"
  by (simp add: isAggregate_query_def split: prod.splits)

lemma perform_keeps_aggregate: "aggregate q \<Longrightarrow> aggregate (perform f operation q)"
  by (cases operation)
     (simp_all add: aggregate_getConditions aggregate_and_query aggregate_or_query
        aggregate_getPropertyConditions aggregate_getPropertyCondition
        aggregate_getColumnDescriptions isAggregate_query_flag
        equals_def in_query_def aggregate_push_condition aggregate_snd_getConditions)

lemma perform_all_keep_aggregate:
  "aggregate q \<Longrightarrow> aggregate (fold (perform f) operations q)"
  by (induction operations arbitrary: q) (simp_all add: perform_keeps_aggregate)

text \<open>
  C9.  After \<open>getColumnDescriptions\<close> the cached flag is true exactly when it was true
  before or the SELECT clause has a projection whose origin is an operator.  No
  operation on a query makes a true flag false.  Hence once \<open>isAggregate()\<close> has returned
  true it returns true after any sequence of operations, the replacement of the SELECT
  clause by one without aggregate columns among them.
\<close>

theorem aggregate_flag_monotone:
  "aggregate (snd (getColumnDescriptions f q)) =
     (aggregate q \<or>
      (case select q of None \<Rightarrow> False | Some s \<Rightarrow> list_ex is_aggregate_column (columns s))) \<and>
   (aggregate q \<longrightarrow> aggregate (perform f operation q)) \<and>
   (fst (isAggregate_query f q) \<longrightarrow>
      fst (isAggregate_query f (fold (perform f) operations (snd (isAggregate_query f q)))))"
proof -
  have "fst (isAggregate_query f q) \<Longrightarrow>
      fst (isAggregate_query f (fold (perform f) operations (snd (isAggregate_query f q))))"
  proof -
    assume "fst (isAggregate_query f q)"
    then have "aggregate (snd (isAggregate_query f q))"
      by (simp add: isAggregate_query_flag)
    then have "aggregate (fold (perform f) operations (snd (isAggregate_query f q)))"
      by (rule perform_all_keep_aggregate)
    then show ?thesis
      by (simp add: isAggregate_query_flag aggregate_getColumnDescriptions)
  qed
  then show ?thesis
    using aggregate_getColumnDescriptions [of f q] perform_keeps_aggregate [of q f operation]
    by blast
qed

theorem aggregate_flag_monotone_witness:
  "fst (isAggregate_query toQueryString_text
     (new_SQXSearchQuery \<lparr> select := Some \<lparr> columns =
        [OperatorProjectAs ''count(x) AS total'' (Operator ''count(x)'' None [])
           (Token ''total'') None []] \<rparr> \<rparr>)) \<and>
   select (fold (perform toQueryString_text)
       [AssignSelect (Some \<lparr> columns = [PropertyRef ''name''] \<rparr>), GetColumnDescriptions]
       (snd (isAggregate_query toQueryString_text
         (new_SQXSearchQuery \<lparr> select := Some \<lparr> columns =
            [OperatorProjectAs ''count(x) AS total'' (Operator ''count(x)'' None [])
               (Token ''total'') None []] \<rparr> \<rparr>))))
     = Some \<lparr> columns = [PropertyRef ''name''] \<rparr> \<and>
   fst (isAggregate_query toQueryString_text
     (fold (perform toQueryString_text)
       [AssignSelect (Some \<lparr> columns = [PropertyRef ''name''] \<rparr>), GetColumnDescriptions]
       (snd (isAggregate_query toQueryString_text
         (new_SQXSearchQuery \<lparr> select := Some \<lparr> columns =
            [OperatorProjectAs ''count(x) AS total'' (Operator ''count(x)'' None [])
               (Token ''total'') None []] \<rparr> \<rparr>))))) \<and>
   aggregate (new_SQXSearchQuery \<lparr> aggregate := True \<rparr>) \<and>
   aggregate (perform toQueryString_text (AssignSelect None)
     (new_SQXSearchQuery \<lparr> aggregate := True \<rparr>)) \<and>
   aggregate (perform toQueryString_text GetColumnDescriptions
     (new_SQXSearchQuery \<lparr> aggregate := True \<rparr>))"
  using aggregate_flag_monotone
      [where f = toQueryString_text
         and q = "new_SQXSearchQuery \<lparr> select := Some \<lparr> columns =
            [OperatorProjectAs ''count(x) AS total'' (Operator ''count(x)'' None [])
               (Token ''total'') None []] \<rparr> \<rparr>"
         and operation = GetColumnDescriptions
         and operations =
           "[AssignSelect (Some \<lparr> columns = [PropertyRef ''name''] \<rparr>), GetColumnDescriptions]"]
    aggregate_flag_monotone
      [where f = toQueryString_text and q = "new_SQXSearchQuery \<lparr> aggregate := True \<rparr>"
         and operation = "AssignSelect None" and operations = "[]"]
    aggregate_flag_monotone
      [where f = toQueryString_text and q = "new_SQXSearchQuery \<lparr> aggregate := True \<rparr>"
         and operation = GetColumnDescriptions and operations = "[]"]
  by (simp add: isAggregate_query_def getColumnDescriptions_def new_SQXSearchQuery_def)

section \<open>Properties of the conditional evaluator\<close>

lemmas evaluator_defs =
  test_def evaluateEquals_def evaluateNotEquals_def evaluateIn_def evaluateContainsAny_def
  evaluateContainsAll_def two_elements_def normalizeProperty_def has_ns_and_id_def
  getPropertyValue_def assert_def andThen_def strict_equals_def Let_def

text \<open>
  C7.  Against a subject whose \<open>status\<close> is \<open>open\<close>, the descriptor
  \<open>{"and": [{"=": [{"source": "status"}, "open"]}, {"in": [{"source": "tag"}, ["a", "b"]]}]}\<close>
  evaluates to true when the subject's \<open>tag\<close> is \<open>b\<close> and to false when it is \<open>c\<close>; the
  descriptor \<open>{"=": [{"source": "status"}]}\<close>, of arity 1, raises an error against every
  subject.
\<close>

theorem evaluator_example:
  "(target (JStr ''status'') (JStr ''default'') = JStr ''open'' \<and>
    target (JStr ''tag'') (JStr ''default'') = JStr ''b'' \<longrightarrow>
      test JUndefined target
        (JObj [(''and'',
           JArr [JObj [(''='', JArr [JObj [(''source'', JStr ''status'')], JStr ''open''])],
                 JObj [(''in'', JArr [JObj [(''source'', JStr ''tag'')],
                                       JArr [JStr ''a'', JStr ''b'']])]])])
        = Inr True) \<and>
   (target (JStr ''status'') (JStr ''default'') = JStr ''open'' \<and>
    target (JStr ''tag'') (JStr ''default'') = JStr ''c'' \<longrightarrow>
      test JUndefined target
        (JObj [(''and'',
           JArr [JObj [(''='', JArr [JObj [(''source'', JStr ''status'')], JStr ''open''])],
                 JObj [(''in'', JArr [JObj [(''source'', JStr ''tag'')],
                                       JArr [JStr ''a'', JStr ''b'']])]])])
        = Inr False) \<and>
   test JUndefined target (JObj [(''='', JArr [JObj [(''source'', JStr ''status'')]])])
     = Inl (FormatError ''`!=` descriptor should have two elements'')"
  by (simp add: evaluator_defs)

theorem evaluator_example_witness:
  "subject_of [(''status'', JStr ''open''), (''tag'', JStr ''b'')] (JStr ''status'') (JStr ''default'')
     = JStr ''open'' \<and>
   subject_of [(''status'', JStr ''open''), (''tag'', JStr ''b'')] (JStr ''tag'') (JStr ''default'')
     = JStr ''b'' \<and>
   test JUndefined (subject_of [(''status'', JStr ''open''), (''tag'', JStr ''b'')])
        (JObj [(''and'',
           JArr [JObj [(''='', JArr [JObj [(''source'', JStr ''status'')], JStr ''open''])],
                 JObj [(''in'', JArr [JObj [(''source'', JStr ''tag'')],
                                       JArr [JStr ''a'', JStr ''b'']])]])])
     = Inr True \<and>
   subject_of [(''status'', JStr ''open''), (''tag'', JStr ''c'')] (JStr ''status'') (JStr ''default'')
     = JStr ''open'' \<and>
   subject_of [(''status'', JStr ''open''), (''tag'', JStr ''c'')] (JStr ''tag'') (JStr ''default'')
     = JStr ''c'' \<and>
   test JUndefined (subject_of [(''status'', JStr ''open''), (''tag'', JStr ''c'')])
        (JObj [(''and'',
           JArr [JObj [(''='', JArr [JObj [(''source'', JStr ''status'')], JStr ''open''])],
                 JObj [(''in'', JArr [JObj [(''source'', JStr ''tag'')],
                                       JArr [JStr ''a'', JStr ''b'']])]])])
     = Inr False"
  using evaluator_example [where target = "subject_of [(''status'', JStr ''open''), (''tag'', JStr ''b'')]"]
    evaluator_example [where target = "subject_of [(''status'', JStr ''open''), (''tag'', JStr ''c'')]"]
  by (simp add: subject_of_def)

lemma contains_value_array:
  "contains_value (JArr xs) v = Inr (list_ex (\<lambda>x. strict_equals x v) xs)"
  by simp

lemma reduce_any_array:
  "reduce_any (JArr xs) vs alpha =
     Inr (alpha \<or> list_ex (\<lambda>v. list_ex (\<lambda>x. strict_equals x v) xs) vs)"
  by (induction vs arbitrary: alpha) (simp_all add: andThen_def)

lemma reduce_all_array:
  "reduce_all (JArr xs) vs alpha =
     Inr (alpha \<and> list_all (\<lambda>v. list_ex (\<lambda>x. strict_equals x v) xs) vs)"
  by (induction vs arbitrary: alpha) (simp_all add: andThen_def)

theorem not_array_form_counterexample:
  "dispatchOperator (subject_of [(''status'', JStr ''open'')])
     (JObj [(''='', JArr [JObj [(''source'', JStr ''status'')], JStr ''open''])]) = Inr True \<and>
   dispatchOperator (subject_of [(''status'', JStr ''open'')])
     (JObj [(''not'',
        JArr [JObj [(''='', JArr [JObj [(''source'', JStr ''status'')], JStr ''open''])]])])
     = Inl (UnknownOperator ''0'')"
  by (simp add: evaluator_defs subject_of_def)

text \<open>
  C8, as amended.  The operand of \<open>and\<close>, \<open>or\<close>, \<open>=\<close>, \<open>!=\<close>, \<open>in\<close>, \<open>contains_any\<close> and
  \<open>contains_all\<close> is an array.  The operand of \<open>not\<close> is a single operator descriptor,
  not an array: \<open>{"not": d}\<close> evaluates to the negation of what \<open>d\<close> evaluates to, and
  raises what \<open>d\<close> raises, whereas \<open>{"not": [d]}\<close> raises the error of an unknown operator
  \<open>0\<close>, for every \<open>d\<close>.
\<close>

theorem not_takes_a_descriptor:
  "dispatchOperator target (JObj [(''not'', d)]) =
     (case dispatchOperator target d of Inl e \<Rightarrow> Inl e | Inr b \<Rightarrow> Inr (\<not> b)) \<and>
   dispatchOperator target (JObj [(''not'', JArr [d])]) = Inl (UnknownOperator ''0'') \<and>
   dispatchOperator target (JObj [(''and'', JArr [d])]) = dispatchOperator target d \<and>
   dispatchOperator target (JObj [(''or'', JArr [d])]) = dispatchOperator target d \<and>
   dispatchOperator target (JObj [(''='', JArr [JObj [(''source'', JStr s)], v])]) =
     Inr (strict_equals (target (JStr s) (JStr ''default'')) v) \<and>
   dispatchOperator target (JObj [(''!='', JArr [JObj [(''source'', JStr s)], v])]) =
     Inr (\<not> strict_equals (target (JStr s) (JStr ''default'')) v) \<and>
   dispatchOperator target (JObj [(''in'', JArr [JObj [(''source'', JStr s)], JArr vs])]) =
     Inr (list_ex (\<lambda>x. strict_equals x (target (JStr s) (JStr ''default''))) vs) \<and>
   (target (JStr s) (JStr ''default'') = JArr xs \<longrightarrow>
      dispatchOperator target
        (JObj [(''contains_any'', JArr [JObj [(''source'', JStr s)], JArr vs])]) =
        Inr (list_ex (\<lambda>v. list_ex (\<lambda>x. strict_equals x v) xs) vs) \<and>
      dispatchOperator target
        (JObj [(''contains_all'', JArr [JObj [(''source'', JStr s)], JArr vs])]) =
        Inr (list_all (\<lambda>v. list_ex (\<lambda>x. strict_equals x v) xs) vs))"
proof -
  have n: "normalizeProperty (JObj [(''source'', JStr s)]) = Inr (JStr ''default'', JStr s)"
    by (simp add: normalizeProperty_def has_ns_and_id_def assert_def andThen_def)
  have pair: "\<And>m a b. two_elements m (JArr [a, b]) = Inr ()"
    by (simp add: two_elements_def assert_def andThen_def)
  have a: "dispatchOperator target (JObj [(''and'', JArr [d])]) = dispatchOperator target d"
    by (simp split: sum.splits)
  have b: "dispatchOperator target (JObj [(''or'', JArr [d])]) = dispatchOperator target d"
    by (simp split: sum.splits)
  have c: "dispatchOperator target (JObj [(''='', JArr [JObj [(''source'', JStr s)], v])]) =
     Inr (strict_equals (target (JStr s) (JStr ''default'')) v)"
    by (simp add: evaluateEquals_def pair n andThen_def getPropertyValue_def)
  have d: "dispatchOperator target (JObj [(''!='', JArr [JObj [(''source'', JStr s)], v])]) =
     Inr (\<not> strict_equals (target (JStr s) (JStr ''default'')) v)"
    by (simp add: evaluateNotEquals_def pair n andThen_def getPropertyValue_def)
  have e: "dispatchOperator target (JObj [(''in'', JArr [JObj [(''source'', JStr s)], JArr vs])]) =
     Inr (list_ex (\<lambda>x. strict_equals x (target (JStr s) (JStr ''default''))) vs)"
    by (simp add: evaluateIn_def pair n andThen_def getPropertyValue_def assert_def)
  have f: "target (JStr s) (JStr ''default'') = JArr xs \<longrightarrow>
      dispatchOperator target
        (JObj [(''contains_any'', JArr [JObj [(''source'', JStr s)], JArr vs])]) =
        Inr (list_ex (\<lambda>v. list_ex (\<lambda>x. strict_equals x v) xs) vs) \<and>
      dispatchOperator target
        (JObj [(''contains_all'', JArr [JObj [(''source'', JStr s)], JArr vs])]) =
        Inr (list_all (\<lambda>v. list_ex (\<lambda>x. strict_equals x v) xs) vs)"
    by (simp add: evaluateContainsAny_def evaluateContainsAll_def pair n andThen_def
          getPropertyValue_def assert_def reduce_any_array reduce_all_array)
  have g: "dispatchOperator target (JObj [(''not'', d)]) =
     (case dispatchOperator target d of Inl e \<Rightarrow> Inl e | Inr b \<Rightarrow> Inr (\<not> b))"
    by simp
  have h: "dispatchOperator target (JObj [(''not'', JArr [d])]) = Inl (UnknownOperator ''0'')"
    by simp
  from a b c d e f g h show ?thesis by blast
qed

theorem not_takes_a_descriptor_witness:
  "subject_of [(''tags'', JArr [JStr ''a'', JStr ''b''])] (JStr ''tags'') (JStr ''default'')
     = JArr [JStr ''a'', JStr ''b''] \<and>
   dispatchOperator (subject_of [(''tags'', JArr [JStr ''a'', JStr ''b''])])
     (JObj [(''contains_any'', JArr [JObj [(''source'', JStr ''tags'')], JArr [JStr ''b'', JStr ''z'']])])
     = Inr True \<and>
   dispatchOperator (subject_of [(''tags'', JArr [JStr ''a'', JStr ''b''])])
     (JObj [(''contains_all'', JArr [JObj [(''source'', JStr ''tags'')], JArr [JStr ''b'', JStr ''z'']])])
     = Inr False \<and>
   dispatchOperator (subject_of [(''tags'', JArr [JStr ''a'', JStr ''b''])])
     (JObj [(''not'',
        JObj [(''contains_all'', JArr [JObj [(''source'', JStr ''tags'')], JArr [JStr ''b'', JStr ''z'']])])])
     = Inr True \<and>
   dispatchOperator (subject_of [(''tags'', JArr [JStr ''a'', JStr ''b''])])
     (JObj [(''not'',
        JArr [JObj [(''contains_all'', JArr [JObj [(''source'', JStr ''tags'')], JArr [JStr ''b'', JStr ''z'']])]])])
     = Inl (UnknownOperator ''0'')"
  using not_takes_a_descriptor
      [where target = "subject_of [(''tags'', JArr [JStr ''a'', JStr ''b''])]"
         and s = "''tags''" and xs = "[JStr ''a'', JStr ''b'']" and vs = "[JStr ''b'', JStr ''z'']"
         and d = "JObj [(''contains_all'', JArr [JObj [(''source'', JStr ''tags'')], JArr [JStr ''b'', JStr ''z'']])]"]
  by (simp add: subject_of_def strict_equals_def)

end
